theory Spec2Isabelle
  imports Main "HOL-Library.Sublist"
begin

section \<open>Knowledge base store\<close>

text \<open>
  A troubleshooting document, as its front matter and its Related Issues section give it.
  An entry of Related Issues is a filename with an optional parenthetical reason.
  \<open>doc_name\<close> is the document's file name where the sources record it, and \<open>None\<close>
  for the six documents whose file names are not recorded.
\<close>

record kb_doc =
  doc_name :: "string option"
  title :: string
  category :: string
  severity :: string
  updated :: string
  has_images :: bool
  image_urls :: "string list"
  related_issues :: "(string \<times> string option) list"

text \<open>Lower case of an ASCII letter; other characters are left as they are.\<close>

definition lower_ascii :: "char \<Rightarrow> char" where
  "lower_ascii c =
     (case map_of (zip ''ABCDEFGHIJKLMNOPQRSTUVWXYZ'' ''abcdefghijklmnopqrstuvwxyz'') c of
        None \<Rightarrow> c | Some l \<Rightarrow> l)"

definition app_crashes_common :: kb_doc where
  "app_crashes_common = \<lparr>doc_name = Some ''app_crashes_common.md'', title = ''App Crashes Common'',
     category = ''crashes'', severity = ''medium'', updated = ''2024-01-18'',
     has_images = False, image_urls = [],
     related_issues = [(''app_crashes_advanced.md'', None), (''storage_full.md'', None)]\<rparr>"

definition battery_drain_advanced :: kb_doc where
  "battery_drain_advanced = \<lparr>doc_name = Some ''battery_drain_advanced.md'',
     title = ''Battery Drain Advanced'',
     category = ''battery'', severity = ''medium'', updated = ''2024-01-15'',
     has_images = False, image_urls = [],
     related_issues = [(''battery_drain_basics.md'', None), (''overheating_causes.md'', None)]\<rparr>"

definition overheating_causes :: kb_doc where
  "overheating_causes = \<lparr>doc_name = Some ''overheating_causes.md'', title = ''Overheating Causes'',
     category = ''overheating'', severity = ''medium'', updated = ''2024-01-10'',
     has_images = False, image_urls = [],
     related_issues = [(''overheating_fixes.md'', None), (''battery_drain_advanced.md'', None)]\<rparr>"

definition overheating_fixes :: kb_doc where
  "overheating_fixes = \<lparr>doc_name = Some ''overheating_fixes.md'', title = ''Overheating Fixes'',
     category = ''overheating'', severity = ''medium'', updated = ''2024-01-10'',
     has_images = False, image_urls = [],
     related_issues = [(''overheating_causes.md'', None), (''app_crashes_common.md'', None)]\<rparr>"

definition storage_full :: kb_doc where
  "storage_full = \<lparr>doc_name = Some ''storage_full.md'', title = ''Storage Full'',
     category = ''storage'', severity = ''high'', updated = ''2024-01-22'',
     has_images = True,
     image_urls = [''https://support.apple.com/library/content/dam/edam/applecare/images/en_US/iphone/iphone-storage-settings.png''],
     related_issues = [(''storage_management.md'', None), (''app_crashes_common.md'', None)]\<rparr>"

definition wifi_slow_speeds :: kb_doc where
  "wifi_slow_speeds = \<lparr>doc_name = Some ''wifi_slow_speeds.md'', title = ''Wi-Fi Slow Speeds'',
     category = ''wifi'', severity = ''low'', updated = ''2024-01-20'',
     has_images = False, image_urls = [],
     related_issues = [(''wifi_connection_issues.md'', None)]\<rparr>"

text \<open>The documents whose file names are not recorded.\<close>

definition app_crashes_advanced :: kb_doc where
  "app_crashes_advanced = \<lparr>doc_name = None,
     title = ''App Crashes Advanced'',
     category = ''crashes'', severity = ''high'', updated = ''2024-01-18'',
     has_images = False, image_urls = [],
     related_issues = [(''app_crashes_common.md'', None), (''storage_management.md'', None)]\<rparr>"

definition battery_drain_basics :: kb_doc where
  "battery_drain_basics = \<lparr>doc_name = None,
     title = ''Battery Drain Basics'',
     category = ''battery'', severity = ''low'', updated = ''2024-01-15'',
     has_images = True,
     image_urls = [''https://support.apple.com/library/content/dam/edam/applecare/images/en_US/iphone/iphone-14-pro-battery-settings.png''],
     related_issues = [(''battery_drain_advanced.md'', None), (''storage_full.md'', None)]\<rparr>"

definition wifi_connection_issues :: kb_doc where
  "wifi_connection_issues = \<lparr>doc_name = None,
     title = ''Wi-Fi Connection Issues'',
     category = ''wifi'', severity = ''medium'', updated = ''2024-01-20'',
     has_images = True,
     image_urls = [''https://support.apple.com/library/content/dam/edam/applecare/images/en_US/iphone/iphone-wi-fi-settings.png''],
     related_issues = [(''wifi_slow_speeds.md'', None), (''bluetooth_issues.md'', None)]\<rparr>"

definition storage_management :: kb_doc where
  "storage_management = \<lparr>doc_name = None,
     title = ''Storage Management'',
     category = ''storage'', severity = ''low'', updated = ''2024-01-22'',
     has_images = False, image_urls = [],
     related_issues = [(''storage_full.md'', None)]\<rparr>"

definition bluetooth_issues :: kb_doc where
  "bluetooth_issues = \<lparr>doc_name = None,
     title = ''Bluetooth Issues'',
     category = ''bluetooth'', severity = ''medium'', updated = ''2024-01-12'',
     has_images = False, image_urls = [],
     related_issues = [(''wifi_connection_issues.md'', None), (''wifi_slow_speeds.md'', None)]\<rparr>"

definition screen_issues :: kb_doc where
  "screen_issues = \<lparr>doc_name = None,
     title = ''Screen Issues'',
     category = ''screen'', severity = ''medium'', updated = ''2024-01-08'',
     has_images = False, image_urls = [],
     related_issues = [(''battery_drain_basics.md'', Some ''brightness affects battery'')]\<rparr>"

definition named_docs :: "kb_doc list" where
  "named_docs = [app_crashes_common, battery_drain_advanced, overheating_causes,
     overheating_fixes, storage_full, wifi_slow_speeds]"

definition kb_store :: "kb_doc list" where
  "kb_store = named_docs @ [app_crashes_advanced, battery_drain_basics,
     wifi_connection_issues, storage_management, bluetooth_issues, screen_issues]"

section \<open>Client session controller\<close>

text \<open>
  The controller is the script with \<open>getOrCreateSessionId\<close>, \<open>bindDom\<close> and
  \<open>setupListeners\<close>. Its module-level variables and the parts of the page it reads
  and writes are the fields of one state record; every function takes the state and returns
  the new one. What the network, the microphone and the user answer is an argument of the
  function that awaits it.

  A JavaScript string is represented by the bytes of its UTF-8 encoding: a character of
  ASCII is one byte, U+00A0 is the two bytes \<open>0xC2 0xA0\<close>, U+2028 the three bytes
  \<open>0xE2 0x80 0xA8\<close>. A byte list that is not well-formed UTF-8 stands for no string of
  the script, and a string of the script with an unpaired surrogate has no representation.
\<close>

subsection \<open>JavaScript values\<close>

text \<open>A value that is null, undefined or a string is truthy when it is a non-empty string.\<close>

definition truthy :: "string option \<Rightarrow> bool" where
  "truthy v = (case v of None \<Rightarrow> False | Some s \<Rightarrow> s \<noteq> [])"

text \<open>\<^verbatim>\<open>v || d\<close> for such a value.\<close>

definition or_else :: "string option \<Rightarrow> string \<Rightarrow> string" where
  "or_else v d = (case v of None \<Rightarrow> d | Some s \<Rightarrow> if s = [] then d else s)"

text \<open>\<^verbatim>\<open>v || null\<close>: a falsy value becomes null.\<close>

definition or_null :: "string option \<Rightarrow> string option" where
  "or_null v = (if truthy v then v else None)"

text \<open>
  The code points \<^verbatim>\<open>String.prototype.trim\<close> strips, each by its encoding: the white
  space of ECMAScript (U+0009, U+000B, U+000C, U+FEFF and the space separators U+0020,
  U+00A0, U+1680, U+2000 to U+200A, U+202F, U+205F, U+3000) and its line terminators
  (U+000A, U+000D, U+2028, U+2029).
\<close>

definition whitespace :: "string list" where
  "whitespace =
     [[CHR 0x09], [CHR 0x0A], [CHR 0x0B], [CHR 0x0C], [CHR 0x0D], [CHR 0x20],
      [CHR 0xC2, CHR 0xA0],
      [CHR 0xE1, CHR 0x9A, CHR 0x80],
      [CHR 0xE2, CHR 0x80, CHR 0x80], [CHR 0xE2, CHR 0x80, CHR 0x81],
      [CHR 0xE2, CHR 0x80, CHR 0x82], [CHR 0xE2, CHR 0x80, CHR 0x83],
      [CHR 0xE2, CHR 0x80, CHR 0x84], [CHR 0xE2, CHR 0x80, CHR 0x85],
      [CHR 0xE2, CHR 0x80, CHR 0x86], [CHR 0xE2, CHR 0x80, CHR 0x87],
      [CHR 0xE2, CHR 0x80, CHR 0x88], [CHR 0xE2, CHR 0x80, CHR 0x89],
      [CHR 0xE2, CHR 0x80, CHR 0x8A],
      [CHR 0xE2, CHR 0x80, CHR 0xA8], [CHR 0xE2, CHR 0x80, CHR 0xA9],
      [CHR 0xE2, CHR 0x80, CHR 0xAF],
      [CHR 0xE2, CHR 0x81, CHR 0x9F],
      [CHR 0xE3, CHR 0x80, CHR 0x80],
      [CHR 0xEF, CHR 0xBB, CHR 0xBF]]"

text \<open>
  \<open>strip_start\<close> removes the white space a string starts with, \<open>strip_end\<close> the
  white space it ends with; \<open>trim\<close> does both.
\<close>

function strip_start :: "string \<Rightarrow> string" where
  "strip_start s =
     (case find (\<lambda>w. prefix w s) whitespace of
        None \<Rightarrow> s
      | Some w \<Rightarrow> strip_start (drop (length w) s))"
  by pat_completeness auto
termination
proof (relation "measure length")
  show "wf (measure length)" by simp
next
  fix s w :: string
  assume "find (\<lambda>w. prefix w s) whitespace = Some w"
  then have "prefix w s" and "w \<in> set whitespace"
    by (auto simp: find_Some_iff)
  then have "w \<noteq> []" and "length w \<le> length s"
    by (auto simp: whitespace_def prefix_length_le)
  then show "(drop (length w) s, s) \<in> measure length"
    by (cases w) auto
qed

function strip_end :: "string \<Rightarrow> string" where
  "strip_end s =
     (case find (\<lambda>w. suffix w s) whitespace of
        None \<Rightarrow> s
      | Some w \<Rightarrow> strip_end (take (length s - length w) s))"
  by pat_completeness auto
termination
proof (relation "measure length")
  show "wf (measure length)" by simp
next
  fix s w :: string
  assume "find (\<lambda>w. suffix w s) whitespace = Some w"
  then have "suffix w s" and "w \<in> set whitespace"
    by (auto simp: find_Some_iff)
  then have "w \<noteq> []" and "length w \<le> length s"
    by (auto simp: whitespace_def suffix_length_le)
  then show "(take (length s - length w) s, s) \<in> measure length"
    by (cases w) auto
qed

declare strip_start.simps [simp del] strip_end.simps [simp del]

definition trim :: "string \<Rightarrow> string" where
  "trim s = strip_end (strip_start s)"

definition startsWith :: "string \<Rightarrow> string \<Rightarrow> bool" where
  "startsWith s p = prefix p s"

datatype exn = Error string | TypeError string | DOMException string

text \<open>
  What a \<^verbatim>\<open>fetch\<close> gives: the promise rejects (also when the body is not JSON), or
  the response is not ok (with its body text), or it is ok with the parsed body.
\<close>

datatype 'a http = Rejected | NotOk string | Ok200 'a

datatype request =
    GetSession string
  | GetDocuments
  | PostChat string string "string option"
  | PostTranscribe "string list"
  | PostUpload string

subsection \<open>Page elements and state\<close>

text \<open>
  A cited source is a string or an object with optional \<open>url\<close> and \<open>title\<close>.
  A source pill is the anchor of a message: the value of its \<open>href\<close> attribute and
  its label.
\<close>

datatype source = SrcString string | SrcObject "string option" "string option"

datatype pill = Pill string string

text \<open>
  The entries of the transcript. A user message is its text and the URL of its image, if
  any. An assistant message is the text handed to \<open>renderMarkdown\<close> (the library
  \<open>marked\<close> when the page has loaded it, \<open>escapeHtml\<close> otherwise), its source
  pills and its audio, if any.
\<close>

datatype element =
    UserMessage string "string option"
  | AriaMessage string "pill list" "string option"
  | TypingIndicator

datatype doc_item = DocItem string int bool

datatype recorder_state = Inactive | Recording

record step =
  step_phase :: "string option"
  step_text :: "string option"

record chat_data =
  data_text :: "string option"
  data_sources :: "source list option"
  data_steps :: "step list option"
  data_audio_base64 :: "string option"

record turn =
  role :: string
  content :: string

text \<open>
  An entry of the document list as the server gives it. \<open>chunks_created\<close> is a JSON
  number, taken here to be an integer.
\<close>

record doc_entry =
  filename :: string
  chunks_created :: int

text \<open>
  An element the page lacks is \<open>None\<close> (\<^verbatim>\<open>getElementById\<close> gave null). The
  sources panel is kept as the markup last assigned to its \<open>innerHTML\<close>. The
  recorders and media streams the script creates live in two stores, indexed by handle;
  \<open>mediaRecorder\<close> and \<open>stream\<close> hold handles. \<open>requests\<close> is the log of
  the HTTP requests issued, \<open>console\<close> of the errors logged.
\<close>

record state =
  sessionId :: string
  mediaRecorder :: "nat option"
  audioChunks :: "string list"
  stream :: "nat option"
  currentImageBase64 :: "string option"
  conversation :: "element list option"
  textInput :: "string option"
  holdSpeak :: "bool option"
  voiceStatus :: "string option"
  docsUpload :: bool
  fileInput :: "string option"
  docsList :: "doc_item list option"
  stepsList :: "string list option"
  sourcesList :: "string option"
  processStepsList :: "(string \<times> string) list option"
  recorders :: "recorder_state list"
  tracks :: "bool list"
  requests :: "request list"
  console :: "exn list"

definition console_error :: "state \<Rightarrow> exn \<Rightarrow> state" where
  "console_error st e = st\<lparr>console := console st @ [e]\<rparr>"

definition fetch :: "state \<Rightarrow> request \<Rightarrow> state" where
  "fetch st r = st\<lparr>requests := requests st @ [r]\<rparr>"

subsection \<open>Messages\<close>

definition setVoiceStatus :: "state \<Rightarrow> string \<Rightarrow> state" where
  "setVoiceStatus st t =
     (case voiceStatus st of None \<Rightarrow> st | Some _ \<Rightarrow> st\<lparr>voiceStatus := Some t\<rparr>)"

definition appendUserMessage :: "state \<Rightarrow> string \<Rightarrow> string option \<Rightarrow> state" where
  "appendUserMessage st t imageUrl =
     (case conversation st of
        None \<Rightarrow> st
      | Some es \<Rightarrow> st\<lparr>conversation := Some (es @ [UserMessage t (or_null imageUrl)])\<rparr>)"

fun source_href :: "source \<Rightarrow> string" where
  "source_href (SrcString s) = (if s \<noteq> [] \<and> startsWith s ''http'' then s else ''#'')"
| "source_href (SrcObject url ttl) =
     (case url of
        None \<Rightarrow> ''#''
      | Some u \<Rightarrow> if u \<noteq> [] \<and> startsWith u ''http'' then u else ''#'')"

fun source_label :: "source \<Rightarrow> string" where
  "source_label (SrcString s) = s"
| "source_label (SrcObject url ttl) = or_else ttl (or_else url [])"

text \<open>
  \<open>escapeHtml\<close> escapes \<open>&\<close>, \<open><\<close>, \<open>>\<close> and U+00A0, and leaves the double
  quote as it is: an attribute value written between double quotes ends at the first
  double quote of the escaped text, and what follows it is read as further attributes of
  the anchor. The characters escaped are read back as they were. The strings of a response
  are taken to hold no U+0000 and no carriage return, which the HTML parser does not keep,
  and what follows the first double quote of a link is taken to open no attribute value
  in single quotes, which would run on into the label.
\<close>

definition attribute_value :: "string \<Rightarrow> string" where
  "attribute_value v = takeWhile (\<lambda>c. c \<noteq> CHR 0x22) v"

definition source_pill :: "source \<Rightarrow> pill" where
  "source_pill s = Pill (attribute_value (source_href s)) (source_label s)"

definition appendAriaMessage ::
  "state \<Rightarrow> string \<Rightarrow> source list \<Rightarrow> string option \<Rightarrow> state" where
  "appendAriaMessage st t srcs audioBase64 =
     (case conversation st of
        None \<Rightarrow> st
      | Some es \<Rightarrow>
          st\<lparr>conversation :=
               Some (es @ [AriaMessage t (map source_pill srcs) (or_null audioBase64)])\<rparr>)"

definition opening_message :: string where
  "opening_message = ''Hello, I'' @ [CHR 0x27] @ ''m ARIA. What iPhone issue can I help you troubleshoot today?''"

definition showOpeningMessage :: "state \<Rightarrow> state" where
  "showOpeningMessage st = appendAriaMessage st opening_message [] None"

definition appendTyping :: "state \<Rightarrow> state" where
  "appendTyping st =
     (case conversation st of
        None \<Rightarrow> st
      | Some es \<Rightarrow> st\<lparr>conversation := Some (es @ [TypingIndicator])\<rparr>)"

definition removeTyping :: "state \<Rightarrow> state" where
  "removeTyping st =
     (case conversation st of
        None \<Rightarrow> st
      | Some es \<Rightarrow> st\<lparr>conversation := Some (remove1 TypingIndicator es)\<rparr>)"

subsection \<open>API calls\<close>

definition failed_fetch :: exn where
  "failed_fetch = TypeError ''Failed to fetch''"

definition apiTranscribe ::
  "state \<Rightarrow> string list \<Rightarrow> string option http \<Rightarrow> state \<times> (exn + string option)" where
  "apiTranscribe st audioBlob res =
     (fetch st (PostTranscribe audioBlob),
      case res of Rejected \<Rightarrow> Inl failed_fetch | NotOk b \<Rightarrow> Inl (Error b) | Ok200 t \<Rightarrow> Inr t)"

definition apiChat ::
  "state \<Rightarrow> string \<Rightarrow> string option \<Rightarrow> chat_data http \<Rightarrow> state \<times> (exn + chat_data)" where
  "apiChat st message imageBase64 res =
     (fetch st (PostChat (sessionId st) message imageBase64),
      case res of Rejected \<Rightarrow> Inl failed_fetch | NotOk b \<Rightarrow> Inl (Error b) | Ok200 d \<Rightarrow> Inr d)"

definition apiUploadDocument ::
  "state \<Rightarrow> string \<Rightarrow> doc_entry http \<Rightarrow> state \<times> (exn + doc_entry)" where
  "apiUploadDocument st file res =
     (fetch st (PostUpload file),
      case res of Rejected \<Rightarrow> Inl failed_fetch | NotOk b \<Rightarrow> Inl (Error b) | Ok200 r \<Rightarrow> Inr r)"

definition apiSession ::
  "state \<Rightarrow> turn list option http \<Rightarrow> state \<times> (exn + turn list option)" where
  "apiSession st res =
     (fetch st (GetSession (sessionId st)),
      case res of Rejected \<Rightarrow> Inl failed_fetch | NotOk b \<Rightarrow> Inr (Some []) | Ok200 h \<Rightarrow> Inr h)"

definition apiDocuments ::
  "state \<Rightarrow> doc_entry list option http \<Rightarrow> state \<times> (exn + doc_entry list option)" where
  "apiDocuments st res =
     (fetch st GetDocuments,
      case res of Rejected \<Rightarrow> Inl failed_fetch | NotOk b \<Rightarrow> Inr (Some []) | Ok200 ds \<Rightarrow> Inr ds)"

subsection \<open>Chat flow\<close>

text \<open>
  A function body that can throw after it has changed the page returns the state either
  way: \<open>Completes\<close>, or \<open>Throws\<close> with the exception and the state at the throw.
\<close>

datatype 'a outcome = Completes (state_of: 'a) | Throws (thrown: exn) (state_of: 'a)

definition phaseLabel :: "string option \<Rightarrow> string" where
  "phaseLabel p =
     (if p = Some ''think'' then ''Think'' else if p = Some ''act'' then ''Act'' else ''Observe'')
       @ '': ''"

text \<open>A list item of the process steps: its class name and its text.\<close>

definition process_step :: "step \<Rightarrow> string \<times> string" where
  "process_step s =
     (''process-step process-step-'' @ or_else (step_phase s) ''observe'',
      phaseLabel (step_phase s) @ or_else (step_text s) [])"

text \<open>
  \<open>escapeHtml\<close>: the text is made the content of an element and read back as markup.
\<close>

fun escapeHtml :: "string \<Rightarrow> string" where
  "escapeHtml [] = []"
| "escapeHtml [c] =
     (if c = CHR ''&'' then ''&amp;'' else if c = CHR ''<'' then ''&lt;''
      else if c = CHR ''>'' then ''&gt;'' else [c])"
| "escapeHtml (c # c' # cs) =
     (if c = CHR 0xC2 \<and> c' = CHR 0xA0 then ''&nbsp;'' @ escapeHtml cs
      else if c = CHR ''&'' then ''&amp;'' @ escapeHtml (c' # cs)
      else if c = CHR ''<'' then ''&lt;'' @ escapeHtml (c' # cs)
      else if c = CHR ''>'' then ''&gt;'' @ escapeHtml (c' # cs)
      else c # escapeHtml (c' # cs))"

definition dquote :: string where
  "dquote = [CHR 0x22]"

text \<open>
  The markup \<open>updateContext\<close> builds for the sources panel, one anchor per source,
  joined. It calls \<open>startsWith\<close> on the source itself, which only a string has: on any
  other source the call throws, and the \<open>map\<close> over the sources stops there. The
  \<open>href\<close> is written unescaped.
\<close>

fun panel_link :: "source \<Rightarrow> exn + string" where
  "panel_link (SrcString s) =
     Inr (''<a href='' @ dquote @ (if startsWith s ''http'' then s else ''#'') @ dquote
          @ '' target='' @ dquote @ ''_blank'' @ dquote
          @ '' rel='' @ dquote @ ''noopener'' @ dquote @ ''>'' @ escapeHtml s @ ''</a>'')"
| "panel_link (SrcObject url ttl) = Inl (TypeError ''s.startsWith is not a function'')"

fun panel_links :: "source list \<Rightarrow> exn + string" where
  "panel_links [] = Inr []"
| "panel_links (s # ss) =
     (case panel_link s of
        Inl e \<Rightarrow> Inl e
      | Inr a \<Rightarrow> (case panel_links ss of Inl e \<Rightarrow> Inl e | Inr rest \<Rightarrow> Inr (a @ rest)))"

text \<open>
  U+2026. The entry \<open>updateContext\<close> adds to the steps list is cut by the number of
  characters of the model, which for ASCII text is the script's count.
\<close>

definition ellipsis :: string where
  "ellipsis = [CHR 0xE2, CHR 0x80, CHR 0xA6]"

definition updateContext :: "state \<Rightarrow> chat_data \<Rightarrow> state outcome" where
  "updateContext st d =
     (let st1 =
        (case processStepsList st of
           None \<Rightarrow> st
         | Some _ \<Rightarrow>
             (case data_steps d of
                None \<Rightarrow> st
              | Some ss \<Rightarrow> st\<lparr>processStepsList := Some (map process_step ss)\<rparr>));
          panel =
        (case sourcesList st1 of
           None \<Rightarrow> Completes st1
         | Some _ \<Rightarrow>
             (case data_sources d of
                None \<Rightarrow> Completes st1
              | Some srcs \<Rightarrow>
                  if srcs = [] then Completes st1
                  else (case panel_links srcs of
                          Inl e \<Rightarrow> Throws e st1
                        | Inr links \<Rightarrow> Completes (st1\<lparr>sourcesList := Some links\<rparr>))))
      in (case panel of
            Throws e st2 \<Rightarrow> Throws e st2
          | Completes st2 \<Rightarrow>
              Completes
                (case stepsList st2 of
                   None \<Rightarrow> st2
                 | Some lis \<Rightarrow>
                     (case data_text d of
                        None \<Rightarrow> st2
                      | Some t \<Rightarrow>
                          if t = [] then st2
                          else st2\<lparr>stepsList :=
                                 Some (lis @ [take 60 t @ (if length t > 60 then ellipsis else [])])\<rparr>))))"

text \<open>\<^verbatim>\<open>data.sources || []\<close>.\<close>

definition sources_or_empty :: "chat_data \<Rightarrow> source list" where
  "sources_or_empty d = (case data_sources d of None \<Rightarrow> [] | Some srcs \<Rightarrow> srcs)"

text \<open>
  When \<open>updateContext\<close> throws: the page has a sources panel and some cited source is
  not a string.
\<close>

fun is_string :: "source \<Rightarrow> bool" where
  "is_string (SrcString s) = True"
| "is_string (SrcObject url ttl) = False"

definition panel_throws :: "state \<Rightarrow> chat_data \<Rightarrow> bool" where
  "panel_throws st d =
     (sourcesList st \<noteq> None \<and> \<not> list_all is_string (sources_or_empty d))"

definition apology :: string where
  "apology = ''Sorry, something went wrong. Please try again.''"

text \<open>The \<open>catch\<close> block of \<open>sendMessage\<close>.\<close>

definition sendMessage_catch :: "state \<Rightarrow> exn \<Rightarrow> state" where
  "sendMessage_catch st e =
     console_error (appendAriaMessage (setVoiceStatus (removeTyping st) []) apology [] None) e"

text \<open>The statements of the \<open>try\<close> block of \<open>sendMessage\<close> after the response has arrived.\<close>

definition sendMessage_try :: "state \<Rightarrow> chat_data \<Rightarrow> state outcome" where
  "sendMessage_try st d =
     (case updateContext
             (appendAriaMessage (setVoiceStatus (removeTyping st) [])
                (or_else (data_text d) []) (sources_or_empty d) (data_audio_base64 d)) d of
        Throws e st1 \<Rightarrow> Throws e st1
      | Completes st1 \<Rightarrow> Completes (st1\<lparr>currentImageBase64 := None\<rparr>))"

definition sendMessage :: "state \<Rightarrow> string \<Rightarrow> string option \<Rightarrow> chat_data http \<Rightarrow> state" where
  "sendMessage st t imageBase64 reply =
     (if trim t = [] \<and> \<not> truthy imageBase64 then st
      else
        let msg = (if trim t \<noteq> [] then trim t else ''(Sent an image)'');
            imageUrl = map_option (\<lambda>b. ''data:image/png;base64,'' @ b) (or_null imageBase64);
            st1 = (if truthy imageBase64 then st\<lparr>currentImageBase64 := imageBase64\<rparr> else st);
            st2 = appendUserMessage st1 msg imageUrl;
            st3 = (case textInput st2 of None \<Rightarrow> st2 | Some _ \<Rightarrow> st2\<lparr>textInput := Some []\<rparr>);
            st4 = setVoiceStatus (appendTyping (removeTyping st3)) ''Thinking...'';
            image =
              (if truthy imageBase64 then imageBase64 else or_null (currentImageBase64 st4))
        in (case apiChat st4 msg image reply of
              (st5, Inl e) \<Rightarrow> sendMessage_catch st5 e
            | (st5, Inr d) \<Rightarrow>
                (case sendMessage_try st5 d of
                   Throws e st6 \<Rightarrow> sendMessage_catch st6 e
                 | Completes st6 \<Rightarrow> st6)))"

subsection \<open>Voice recording\<close>

text \<open>
  \<open>startRecording\<close>, given whether \<^verbatim>\<open>getUserMedia\<close> grants the microphone. A
  granted stream and the recorder made for it are new entries of the stores. The promise of
  \<^verbatim>\<open>getUserMedia\<close> is taken to settle before the next event of the voice control:
  a release that comes before the grant is not among the runs of the model.
\<close>

definition startRecording :: "state \<Rightarrow> bool \<Rightarrow> state" where
  "startRecording st granted =
     (if \<not> granted
      then setVoiceStatus (console_error st (DOMException ''NotAllowedError''))
             ''Microphone access needed for voice.''
      else
        let st1 = st\<lparr>stream := Some (length (tracks st)), tracks := tracks st @ [True]\<rparr>;
            st2 = st1\<lparr>mediaRecorder := Some (length (recorders st1)),
                      recorders := recorders st1 @ [Recording], audioChunks := []\<rparr>;
            st3 = (case holdSpeak st2 of None \<Rightarrow> st2 | Some _ \<Rightarrow> st2\<lparr>holdSpeak := Some True\<rparr>)
        in setVoiceStatus st3 ''Listening...'')"

definition ondataavailable :: "state \<Rightarrow> string \<Rightarrow> state" where
  "ondataavailable st blob =
     (if length blob \<noteq> 0 then st\<lparr>audioChunks := audioChunks st @ [blob]\<rparr> else st)"

text \<open>
  The recorder's \<open>onstop\<close> handler, given the answers of the transcription and chat
  endpoints. It stops the tracks of the stream the variable \<open>stream\<close> holds.
\<close>

definition onstop :: "state \<Rightarrow> string option http \<Rightarrow> chat_data http \<Rightarrow> state" where
  "onstop st res reply =
     (case stream st of
        None \<Rightarrow> st
      | Some i \<Rightarrow>
          let st1 = setVoiceStatus (st\<lparr>tracks := (tracks st)[i := False]\<rparr>) ''Transcribing...'';
              st3 =
                (case apiTranscribe st1 (audioChunks st1) res of
                   (st2, Inl err) \<Rightarrow> setVoiceStatus (console_error st2 err) ''Transcription failed.''
                 | (st2, Inr r) \<Rightarrow>
                     (case or_null r of
                        None \<Rightarrow> st2
                      | Some t \<Rightarrow> sendMessage st2 t None reply))
          in setVoiceStatus st3 [])"

text \<open>What the world answers during one interaction with the voice control.\<close>

record world =
  permission :: bool
  recorded :: string
  transcription :: "string option http"
  chat :: "chat_data http"

text \<open>
  \<open>stopRecording\<close>: \<^verbatim>\<open>mediaRecorder.stop()\<close> makes the recorder inactive and
  fires the last \<open>dataavailable\<close> event and then \<open>stop\<close>.
\<close>

definition stopRecording :: "state \<Rightarrow> world \<Rightarrow> state" where
  "stopRecording st w =
     (case mediaRecorder st of
        None \<Rightarrow> st
      | Some r \<Rightarrow>
          if r < length (recorders st) \<and> recorders st ! r \<noteq> Inactive
          then
            let st1 = st\<lparr>recorders := (recorders st)[r := Inactive]\<rparr>;
                st2 = (case holdSpeak st1 of None \<Rightarrow> st1 | Some _ \<Rightarrow> st1\<lparr>holdSpeak := Some False\<rparr>)
            in onstop (ondataavailable st2 (recorded w)) (transcription w) (chat w)
          else st)"

text \<open>
  The events of the voice control and the listeners \<open>setupListeners\<close> binds to it, when
  the control exists.
\<close>

datatype ui_event = mousedown | mouseup | mouseleave | touchstart | touchend | touchcancel

datatype listener = StartRecording | StopRecording

fun holdSpeak_listener :: "ui_event \<Rightarrow> listener option" where
  "holdSpeak_listener mousedown = Some StartRecording"
| "holdSpeak_listener mouseup = Some StopRecording"
| "holdSpeak_listener mouseleave = Some StopRecording"
| "holdSpeak_listener touchstart = Some StartRecording"
| "holdSpeak_listener touchend = Some StopRecording"
| "holdSpeak_listener touchcancel = None"

definition dispatch :: "state \<Rightarrow> ui_event \<times> world \<Rightarrow> state" where
  "dispatch st ew =
     (case holdSpeak st of
        None \<Rightarrow> st
      | Some _ \<Rightarrow>
          (case holdSpeak_listener (fst ew) of
             None \<Rightarrow> st
           | Some StartRecording \<Rightarrow> startRecording st (permission (snd ew))
           | Some StopRecording \<Rightarrow> stopRecording st (snd ew)))"

definition run :: "state \<Rightarrow> (ui_event \<times> world) list \<Rightarrow> state" where
  "run st evs = foldl dispatch st evs"

text \<open>The microphone is held while a track of some stream is live.\<close>

definition microphone_held :: "state \<Rightarrow> bool" where
  "microphone_held st = (True \<in> set (tracks st))"

subsection \<open>Document upload\<close>

definition uploadDoc :: "state \<Rightarrow> string \<Rightarrow> doc_entry http \<Rightarrow> state" where
  "uploadDoc st file res =
     (case apiUploadDocument st file res of
        (st1, Inl e) \<Rightarrow> console_error st1 e
      | (st1, Inr r) \<Rightarrow>
          (case docsList st1 of
             None \<Rightarrow> st1
           | Some items \<Rightarrow>
               st1\<lparr>docsList := Some (items @ [DocItem (filename r) (chunks_created r) True])\<rparr>))"

text \<open>The test \<^verbatim>\<open>/\.(pdf|md|txt)$/i\<close> on a file name.\<close>

definition document_like :: "string \<Rightarrow> bool" where
  "document_like name =
     (let n = map lower_ascii name
      in suffix ''.pdf'' n \<or> suffix ''.md'' n \<or> suffix ''.txt'' n)"

text \<open>
  The \<open>drop\<close> listener of the drop zone and the \<open>change\<close> listener of the file
  input, given the files and what the upload endpoint answers for each.
\<close>

definition uploads :: "state \<Rightarrow> string list \<Rightarrow> (string \<Rightarrow> doc_entry http) \<Rightarrow> state" where
  "uploads st files server = foldl (\<lambda>s f. uploadDoc s f (server f)) st files"

definition on_drop :: "state \<Rightarrow> string list \<Rightarrow> (string \<Rightarrow> doc_entry http) \<Rightarrow> state" where
  "on_drop st files server =
     (if docsUpload st then uploads st (filter document_like files) server else st)"

definition on_change :: "state \<Rightarrow> string list \<Rightarrow> (string \<Rightarrow> doc_entry http) \<Rightarrow> state" where
  "on_change st files server =
     (case fileInput st of
        None \<Rightarrow> st
      | Some _ \<Rightarrow> uploads (st\<lparr>fileInput := Some []\<rparr>) files server)"

subsection \<open>Loading the session\<close>

definition server_notice :: string where
  "server_notice = ''Could not reach the server. Start it with: python main.py''"

definition init_catch :: "state \<Rightarrow> exn \<Rightarrow> state" where
  "init_catch st e = appendAriaMessage (console_error st e) server_notice [] None"

definition replay :: "state \<Rightarrow> turn \<Rightarrow> state" where
  "replay st m =
     (if role m = ''user'' then appendUserMessage st (content m) None
      else appendAriaMessage st (content m) [] None)"

text \<open>The element a turn of the history is rendered as.\<close>

definition render_turn :: "turn \<Rightarrow> element" where
  "render_turn m =
     (if role m = ''user'' then UserMessage (content m) None
      else AriaMessage (content m) [] None)"

definition opening_entry :: element where
  "opening_entry = AriaMessage opening_message [] None"

definition notice_entry :: element where
  "notice_entry = AriaMessage server_notice [] None"

text \<open>
  The history a session request comes back with: a response that is not ok counts as an
  empty history, a body without the field has none.
\<close>

fun returned_history :: "turn list option http \<Rightarrow> turn list" where
  "returned_history (Ok200 (Some ms)) = ms"
| "returned_history (Ok200 None) = []"
| "returned_history (NotOk b) = []"
| "returned_history Rejected = []"

definition list_item :: "doc_entry \<Rightarrow> doc_item" where
  "list_item d = DocItem (filename d) (chunks_created d) False"

definition init ::
  "state \<Rightarrow> turn list option http \<Rightarrow> doc_entry list option http \<Rightarrow> state" where
  "init st sres dres =
     (case conversation st of
        None \<Rightarrow> st
      | Some _ \<Rightarrow>
          (case apiSession st sres of
             (st1, Inl e) \<Rightarrow> init_catch st1 e
           | (st1, Inr h) \<Rightarrow>
               let st2 =
                 (case h of
                    None \<Rightarrow> showOpeningMessage st1
                  | Some ms \<Rightarrow> if length ms > 0 then foldl replay st1 ms else showOpeningMessage st1)
               in (case apiDocuments st2 dres of
                     (st3, Inl e) \<Rightarrow> init_catch st3 e
                   | (st3, Inr ds) \<Rightarrow>
                       (case docsList st3 of
                          None \<Rightarrow> st3
                        | Some items \<Rightarrow>
                            (case ds of
                               None \<Rightarrow> st3
                             | Some entries \<Rightarrow>
                                 if entries = [] then st3
                                 else st3\<lparr>docsList := Some (items @ map list_item entries)\<rparr>)))))"

subsection \<open>Session identifier\<close>

text \<open>
  What the browser answers while the identifier is made: whether local storage throws on
  a read or on a write, the item stored, whether \<^verbatim>\<open>crypto.randomUUID\<close> exists and
  what it returns, \<^verbatim>\<open>Date.now()\<close> in decimal and
  \<^verbatim>\<open>Math.random().toString(36)\<close>.
\<close>

record browser =
  read_throws :: bool
  write_throws :: bool
  stored :: "string option"
  has_randomUUID :: bool
  randomUUID :: string
  now :: string
  random36 :: string

definition getItem :: "browser \<Rightarrow> exn + string option" where
  "getItem b = (if read_throws b then Inl (DOMException ''SecurityError'') else Inr (stored b))"

definition setItem :: "browser \<Rightarrow> string \<Rightarrow> exn + browser" where
  "setItem b v =
     (if write_throws b then Inl (DOMException ''SecurityError'') else Inr (b\<lparr>stored := Some v\<rparr>))"

definition fresh_id :: "browser \<Rightarrow> string" where
  "fresh_id b = ''aria-'' @ now b @ ''-'' @ take 9 (drop 2 (random36 b))"

text \<open>\<open>getOrCreateSessionId\<close>: the identifier and the browser's storage afterwards.\<close>

definition getOrCreateSessionId :: "browser \<Rightarrow> string \<times> browser" where
  "getOrCreateSessionId b =
     (case getItem b of
        Inl _ \<Rightarrow> (fresh_id b, b)
      | Inr item \<Rightarrow>
          (case or_null item of
             Some s \<Rightarrow> (s, b)
           | None \<Rightarrow>
               if has_randomUUID b
               then (case setItem b (randomUUID b) of
                       Inl _ \<Rightarrow> (fresh_id b, b)
                     | Inr b' \<Rightarrow> (randomUUID b, b'))
               else (fresh_id b, b)))"

text \<open>
  The other script of the repository sets the identifier at module level, outside any
  \<open>try\<close>:
  \<^verbatim>\<open>let sessionId = localStorage.getItem('aria_session_id') || crypto.randomUUID();\<close>
  \<^verbatim>\<open>localStorage.setItem('aria_session_id', sessionId);\<close>
  An exception there ends the script before any listener is bound.
\<close>

definition sessionId_at_module_level :: "browser \<Rightarrow> exn + string \<times> browser" where
  "sessionId_at_module_level b =
     (case getItem b of
        Inl e \<Rightarrow> Inl e
      | Inr item \<Rightarrow>
          (case (case or_null item of
                   Some s \<Rightarrow> Inr s
                 | None \<Rightarrow>
                     if has_randomUUID b then Inr (randomUUID b)
                     else Inl (TypeError ''crypto.randomUUID is not a function'')) of
             Inl e \<Rightarrow> Inl e
           | Inr s \<Rightarrow>
               (case setItem b s of
                  Inl e \<Rightarrow> Inl e
                | Inr b' \<Rightarrow> Inr (s, b'))))"

subsection \<open>Concrete pages, answers and browsers\<close>

text \<open>A page with every element the script looks up, at load.\<close>

definition page :: state where
  "page = \<lparr>sessionId = ''3b241101-e2bb-4255-8caf-4136c566a962'', mediaRecorder = None,
     audioChunks = [], stream = None, currentImageBase64 = None, conversation = Some [],
     textInput = Some [], holdSpeak = Some False, voiceStatus = Some [], docsUpload = True,
     fileInput = Some [], docsList = Some [], stepsList = Some [], sourcesList = Some [],
     processStepsList = Some [], recorders = [], tracks = [], requests = [], console = []\<rparr>"

text \<open>
  The chat response
  \<^verbatim>\<open>{text: "Try enabling Low Power Mode.", sources: ["battery_drain_basics.md"],\<close>
  \<^verbatim>\<open> steps: [{phase: "observe", text: "battery drops quickly"}]}\<close>.
\<close>

definition low_power_reply :: chat_data where
  "low_power_reply = \<lparr>data_text = Some ''Try enabling Low Power Mode.'',
     data_sources = Some [SrcString ''battery_drain_basics.md''],
     data_steps = Some [\<lparr>step_phase = Some ''observe'', step_text = Some ''battery drops quickly''\<rparr>],
     data_audio_base64 = None\<rparr>"

text \<open>
  A chat response that cites a web page and a document, with two steps and audio:
  \<^verbatim>\<open>{text: "Restart the router.",\<close>
  \<^verbatim>\<open> sources: ["https://support.apple.com/en-us/111786?a=1&b=2", "wifi_slow_speeds.md"],\<close>
  \<^verbatim>\<open> steps: [{phase: "think", text: "router may be stale"},\<close>
  \<^verbatim>\<open>         {phase: "act", text: "search_knowledge_base"}], audio_base64: "SUQz"}\<close>.
\<close>

definition guide_reply :: chat_data where
  "guide_reply = \<lparr>data_text = Some ''Restart the router.'',
     data_sources = Some [SrcString ''https://support.apple.com/en-us/111786?a=1&b=2'',
                          SrcString ''wifi_slow_speeds.md''],
     data_steps = Some [\<lparr>step_phase = Some ''think'', step_text = Some ''router may be stale''\<rparr>,
                        \<lparr>step_phase = Some ''act'', step_text = Some ''search_knowledge_base''\<rparr>],
     data_audio_base64 = Some ''SUQz''\<rparr>"

text \<open>
  A chat response whose one source is an object:
  \<^verbatim>\<open>{text: "ok", sources: [{url: "https://support.apple.com/", title: "Apple Support"}]}\<close>.
\<close>

definition object_source_reply :: chat_data where
  "object_source_reply = \<lparr>data_text = Some ''ok'',
     data_sources = Some [SrcObject (Some ''https://support.apple.com/'') (Some ''Apple Support'')],
     data_steps = None, data_audio_base64 = None\<rparr>"

text \<open>The microphone is granted, and the transcription endpoint answers with status 500.\<close>

definition failing_transcription :: world where
  "failing_transcription = \<lparr>permission = True, recorded = ''audio'',
     transcription = NotOk ''Internal Server Error'', chat = Rejected\<rparr>"

text \<open>A browser whose local storage throws on every access.\<close>

definition storage_blocked :: browser where
  "storage_blocked = \<lparr>read_throws = True, write_throws = True, stored = None,
     has_randomUUID = True, randomUUID = ''3b241101-e2bb-4255-8caf-4136c566a962'',
     now = ''1700000000000'', random36 = ''0.4fzyo82mvyr''\<rparr>"

text \<open>An upload endpoint that accepts every file as a single chunk.\<close>

definition accepting_server :: "string \<Rightarrow> doc_entry http" where
  "accepting_server f = Ok200 \<lparr>filename = f, chunks_created = 1\<rparr>"

section \<open>Properties of the knowledge base store\<close>

lemmas kb_doc_defs = app_crashes_common_def battery_drain_advanced_def overheating_causes_def
  overheating_fixes_def storage_full_def wifi_slow_speeds_def app_crashes_advanced_def
  battery_drain_basics_def wifi_connection_issues_def storage_management_def
  bluetooth_issues_def screen_issues_def

text \<open>
  C3. For every troubleshooting document of the knowledge base store, the front-matter
  field \<open>has_images\<close> is true if and only if the sequence \<open>image_urls\<close> is non-empty.
\<close>

theorem kb_has_images_iff_urls:
  "\<forall>d \<in> set kb_store. has_images d = (image_urls d \<noteq> [])"
  by (simp add: kb_store_def named_docs_def kb_doc_defs)

theorem kb_has_images_iff_urls_witness:
  "storage_full \<in> set kb_store
   \<and> has_images storage_full = (image_urls storage_full \<noteq> [])
   \<and> has_images storage_full
   \<and> storage_management \<in> set kb_store
   \<and> has_images storage_management = (image_urls storage_management \<noteq> [])
   \<and> \<not> has_images storage_management"
proof -
  have a: "storage_full \<in> set kb_store"
    by (simp add: kb_store_def named_docs_def)
  have b: "storage_management \<in> set kb_store"
    by (simp add: kb_store_def named_docs_def)
  have c: "has_images storage_full" "\<not> has_images storage_management"
    by (simp_all add: storage_full_def storage_management_def)
  from a b c bspec [OF kb_has_images_iff_urls a] bspec [OF kb_has_images_iff_urls b]
  show ?thesis by blast
qed

text \<open>
  The file names recorded are those of six documents. Every entry of a Related Issues
  section names one of them, or one of five further names that no recorded file carries.
\<close>

lemma recorded_names:
  "doc_name ` set kb_store =
     {None, Some ''app_crashes_common.md'', Some ''battery_drain_advanced.md'',
      Some ''overheating_causes.md'', Some ''overheating_fixes.md'', Some ''storage_full.md'',
      Some ''wifi_slow_speeds.md''}"
  by (auto simp: kb_store_def named_docs_def kb_doc_defs)

lemma related_issues_targets:
  "\<forall>d \<in> set kb_store. \<forall>r \<in> set (related_issues d).
     Some (fst r) \<in> doc_name ` set kb_store
     \<or> fst r \<in> set [''app_crashes_advanced.md'', ''battery_drain_basics.md'',
          ''storage_management.md'', ''wifi_connection_issues.md'', ''bluetooth_issues.md'']"
  unfolding recorded_names by (simp add: kb_store_def named_docs_def kb_doc_defs)

section \<open>Properties of the controller\<close>

subsection \<open>Trimming\<close>

lemma whitespace_nonempty: "w \<in> set whitespace \<Longrightarrow> w \<noteq> []"
  by (auto simp: whitespace_def)

lemma find_whitespace_prefix_all:
  "\<forall>w \<in> set whitespace. find (\<lambda>v. prefix v (w @ r)) whitespace = Some w"
  unfolding whitespace_def by simp

lemma find_whitespace_suffix_all:
  "\<forall>w \<in> set whitespace. find (\<lambda>v. suffix v (r @ w)) whitespace = Some w"
  unfolding whitespace_def by (simp add: suffix_to_prefix)

lemma strip_start_Nil: "strip_start [] = []"
  by (simp add: strip_start.simps [of "[]"] whitespace_def)

lemma strip_end_Nil: "strip_end [] = []"
  by (simp add: strip_end.simps [of "[]"] whitespace_def)

lemma strip_start_whitespace:
  assumes "w \<in> set whitespace"
  shows "strip_start (w @ r) = strip_start r"
proof -
  from assms find_whitespace_prefix_all [of r]
  have "find (\<lambda>v. prefix v (w @ r)) whitespace = Some w"
    by blast
  then show ?thesis
    by (simp add: strip_start.simps [of "w @ r"])
qed

lemma strip_start_concat:
  "set ws \<subseteq> set whitespace \<Longrightarrow> strip_start (concat ws @ r) = strip_start r"
  by (induction ws) (simp_all add: strip_start_whitespace)

lemma trim_blank:
  assumes "set ws \<subseteq> set whitespace"
  shows "trim (concat ws) = []"
proof -
  have "strip_start (concat ws @ []) = strip_start []"
    using assms by (rule strip_start_concat)
  then show ?thesis
    by (simp add: trim_def strip_start_Nil strip_end_Nil)
qed

lemma strip_start_blank:
  "\<exists>ws. set ws \<subseteq> set whitespace \<and> strip_start s = concat ws \<Longrightarrow>
   \<exists>ws. set ws \<subseteq> set whitespace \<and> s = concat ws"
proof (induction s rule: strip_start.induct)
  case (1 s)
  show ?case
  proof (cases "find (\<lambda>w. prefix w s) whitespace")
    case None
    with "1.prems" show ?thesis
      by (simp add: strip_start.simps [of s])
  next
    case (Some w)
    then have w: "w \<in> set whitespace" and p: "prefix w s"
      by (auto simp: find_Some_iff)
    from Some "1.prems"
    have "\<exists>ws. set ws \<subseteq> set whitespace \<and> strip_start (drop (length w) s) = concat ws"
      by (simp add: strip_start.simps [of s])
    from "1.IH" [OF Some this]
    obtain ws where ws: "set ws \<subseteq> set whitespace" "drop (length w) s = concat ws"
      by blast
    from p have "s = w @ drop (length w) s"
      by (auto simp: prefix_def)
    with ws have "s = concat (w # ws)"
      by simp
    moreover have "set (w # ws) \<subseteq> set whitespace"
      using w ws by simp
    ultimately show ?thesis by blast
  qed
qed

lemma strip_end_blank:
  "strip_end s = [] \<Longrightarrow> \<exists>ws. set ws \<subseteq> set whitespace \<and> s = concat ws"
proof (induction s rule: strip_end.induct)
  case (1 s)
  show ?case
  proof (cases "find (\<lambda>w. suffix w s) whitespace")
    case None
    with "1.prems" have "s = []"
      by (simp add: strip_end.simps [of s])
    then have "set [] \<subseteq> set whitespace \<and> s = concat []" by simp
    then show ?thesis by blast
  next
    case (Some w)
    then have w: "w \<in> set whitespace" and p: "suffix w s"
      by (auto simp: find_Some_iff)
    from Some "1.prems" have "strip_end (take (length s - length w) s) = []"
      by (simp add: strip_end.simps [of s])
    from "1.IH" [OF Some this]
    obtain ws where ws: "set ws \<subseteq> set whitespace" "take (length s - length w) s = concat ws"
      by blast
    from p have "s = take (length s - length w) s @ w"
      by (auto simp: suffix_def)
    with ws have "s = concat (ws @ [w])"
      by simp
    moreover have "set (ws @ [w]) \<subseteq> set whitespace"
      using w ws by simp
    ultimately show ?thesis by blast
  qed
qed

lemma trim_eq_Nil: "trim t = [] \<longleftrightarrow> (\<exists>ws. set ws \<subseteq> set whitespace \<and> t = concat ws)"
proof
  assume "trim t = []"
  then have "strip_end (strip_start t) = []"
    by (simp add: trim_def)
  then have "\<exists>ws. set ws \<subseteq> set whitespace \<and> strip_start t = concat ws"
    by (rule strip_end_blank)
  then show "\<exists>ws. set ws \<subseteq> set whitespace \<and> t = concat ws"
    by (rule strip_start_blank)
next
  assume "\<exists>ws. set ws \<subseteq> set whitespace \<and> t = concat ws"
  then show "trim t = []"
    using trim_blank by blast
qed

lemma strip_start_no_prefix: "find (\<lambda>w. prefix w (strip_start s)) whitespace = None"
proof (induction s rule: strip_start.induct)
  case (1 s)
  show ?case
  proof (cases "find (\<lambda>w. prefix w s) whitespace")
    case None
    then show ?thesis
      by (simp add: strip_start.simps [of s])
  next
    case (Some w)
    from "1.IH" [OF Some] Some show ?thesis
      by (simp add: strip_start.simps [of s])
  qed
qed

lemma strip_end_no_suffix: "find (\<lambda>w. suffix w (strip_end s)) whitespace = None"
proof (induction s rule: strip_end.induct)
  case (1 s)
  show ?case
  proof (cases "find (\<lambda>w. suffix w s) whitespace")
    case None
    then show ?thesis
      by (simp add: strip_end.simps [of s])
  next
    case (Some w)
    from "1.IH" [OF Some] Some show ?thesis
      by (simp add: strip_end.simps [of s])
  qed
qed

lemma prefix_strip_end: "prefix (strip_end s) s"
proof (induction s rule: strip_end.induct)
  case (1 s)
  show ?case
  proof (cases "find (\<lambda>w. suffix w s) whitespace")
    case None
    then show ?thesis
      by (simp add: strip_end.simps [of s])
  next
    case (Some w)
    have "prefix (take (length s - length w) s) s"
      by (rule take_is_prefix)
    with "1.IH" [OF Some] have "prefix (strip_end (take (length s - length w) s)) s"
      by (rule prefix_order.trans)
    with Some show ?thesis
      by (simp add: strip_end.simps [of s])
  qed
qed

lemma trim_trim: "trim (trim t) = trim t"
proof -
  define a where "a = strip_start t"
  define b where "b = strip_end a"
  have na: "find (\<lambda>w. prefix w a) whitespace = None"
    unfolding a_def by (rule strip_start_no_prefix)
  have nb: "find (\<lambda>w. suffix w b) whitespace = None"
    unfolding b_def by (rule strip_end_no_suffix)
  have pb: "prefix b a"
    unfolding b_def by (rule prefix_strip_end)
  have "find (\<lambda>w. prefix w b) whitespace = None"
  proof (rule ccontr)
    assume "find (\<lambda>w. prefix w b) whitespace \<noteq> None"
    then obtain w where "w \<in> set whitespace" "prefix w b"
      by (auto simp: find_None_iff)
    with pb have "w \<in> set whitespace" "prefix w a"
      by auto
    with na show False
      by (auto simp: find_None_iff)
  qed
  then have "strip_start b = b"
    by (simp add: strip_start.simps [of b])
  moreover from nb have "strip_end b = b"
    by (simp add: strip_end.simps [of b])
  ultimately have "trim b = b"
    by (simp add: trim_def)
  then show ?thesis
    by (simp add: trim_def a_def b_def)
qed

lemma trim_literals:
  "trim ''My battery drains fast'' = ''My battery drains fast''"
  "trim ''(See attached image)'' = ''(See attached image)''"
  "trim ''Is this normal?'' = ''Is this normal?''"
  by (simp_all add: trim_def strip_start.simps strip_end.simps whitespace_def suffix_to_prefix)

subsection \<open>Page updates as record updates\<close>

lemma setVoiceStatus_upd:
  "setVoiceStatus st t = st\<lparr>voiceStatus := map_option (\<lambda>_. t) (voiceStatus st)\<rparr>"
  by (cases "voiceStatus st") (simp_all add: setVoiceStatus_def)

lemma appendUserMessage_upd:
  "appendUserMessage st t u =
     st\<lparr>conversation := map_option (\<lambda>es. es @ [UserMessage t (or_null u)]) (conversation st)\<rparr>"
  by (cases "conversation st") (simp_all add: appendUserMessage_def)

lemma appendAriaMessage_upd:
  "appendAriaMessage st t srcs a =
     st\<lparr>conversation :=
          map_option (\<lambda>es. es @ [AriaMessage t (map source_pill srcs) (or_null a)]) (conversation st)\<rparr>"
  by (cases "conversation st") (simp_all add: appendAriaMessage_def)

lemma appendTyping_upd:
  "appendTyping st = st\<lparr>conversation := map_option (\<lambda>es. es @ [TypingIndicator]) (conversation st)\<rparr>"
  by (cases "conversation st") (simp_all add: appendTyping_def)

lemma removeTyping_upd:
  "removeTyping st = st\<lparr>conversation := map_option (remove1 TypingIndicator) (conversation st)\<rparr>"
  by (cases "conversation st") (simp_all add: removeTyping_def)

lemmas page_updates = setVoiceStatus_upd appendUserMessage_upd appendAriaMessage_upd
  appendTyping_upd removeTyping_upd console_error_def fetch_def

lemma updateContext_frame:
  "sessionId (state_of (updateContext st d)) = sessionId st"
  "mediaRecorder (state_of (updateContext st d)) = mediaRecorder st"
  "audioChunks (state_of (updateContext st d)) = audioChunks st"
  "stream (state_of (updateContext st d)) = stream st"
  "currentImageBase64 (state_of (updateContext st d)) = currentImageBase64 st"
  "conversation (state_of (updateContext st d)) = conversation st"
  "textInput (state_of (updateContext st d)) = textInput st"
  "holdSpeak (state_of (updateContext st d)) = holdSpeak st"
  "voiceStatus (state_of (updateContext st d)) = voiceStatus st"
  "recorders (state_of (updateContext st d)) = recorders st"
  "tracks (state_of (updateContext st d)) = tracks st"
  "requests (state_of (updateContext st d)) = requests st"
  "console (state_of (updateContext st d)) = console st"
  by (simp_all add: updateContext_def Let_def split: option.splits sum.splits)

lemma updateContext_processSteps:
  "processStepsList (state_of (updateContext st d)) =
     (case processStepsList st of
        None \<Rightarrow> None
      | Some ps \<Rightarrow> Some (case data_steps d of None \<Rightarrow> ps | Some ss \<Rightarrow> map process_step ss))"
  by (simp add: updateContext_def Let_def split: option.splits sum.splits)

lemma sendMessage_catch_upd:
  "sendMessage_catch st e =
     st\<lparr>conversation :=
           map_option (\<lambda>es. remove1 TypingIndicator es @ [AriaMessage apology [] None])
             (conversation st),
        voiceStatus := map_option (\<lambda>_. []) (voiceStatus st),
        console := console st @ [e]\<rparr>"
  by (cases "conversation st")
     (simp_all add: sendMessage_catch_def page_updates or_null_def truthy_def)

lemma clear_input_upd:
  "(case textInput st of None \<Rightarrow> st | Some x \<Rightarrow> st\<lparr>textInput := Some []\<rparr>) =
     st\<lparr>textInput := map_option (\<lambda>_. []) (textInput st)\<rparr>"
  by (cases "textInput st") simp_all

lemma sendMessage_try_frame:
  "sessionId (state_of (sendMessage_try st d)) = sessionId st"
  "mediaRecorder (state_of (sendMessage_try st d)) = mediaRecorder st"
  "audioChunks (state_of (sendMessage_try st d)) = audioChunks st"
  "stream (state_of (sendMessage_try st d)) = stream st"
  "textInput (state_of (sendMessage_try st d)) = textInput st"
  "holdSpeak (state_of (sendMessage_try st d)) = holdSpeak st"
  "recorders (state_of (sendMessage_try st d)) = recorders st"
  "tracks (state_of (sendMessage_try st d)) = tracks st"
  "requests (state_of (sendMessage_try st d)) = requests st"
  "voiceStatus (state_of (sendMessage_try st d)) = map_option (\<lambda>_. []) (voiceStatus st)"
  "conversation (state_of (sendMessage_try st d)) =
     map_option (\<lambda>es. remove1 TypingIndicator es @
        [AriaMessage (or_else (data_text d) []) (map source_pill (sources_or_empty d))
           (or_null (data_audio_base64 d))]) (conversation st)"
  using updateContext_frame
    [of "appendAriaMessage (setVoiceStatus (removeTyping st) [])
          (or_else (data_text d) []) (sources_or_empty d) (data_audio_base64 d)" d]
  by (simp_all add: sendMessage_try_def outcome.case_eq_if page_updates option.map_comp comp_def)

lemma sendMessage_try_image:
  "currentImageBase64 (state_of (sendMessage_try st d)) =
     (if is_Completes (sendMessage_try st d) then None else currentImageBase64 st)"
  using updateContext_frame
    [of "appendAriaMessage (setVoiceStatus (removeTyping st) [])
          (or_else (data_text d) []) (sources_or_empty d) (data_audio_base64 d)" d]
  by (simp add: sendMessage_try_def outcome.case_eq_if page_updates)

lemmas sendMessage_unfold = sendMessage_def Let_def apiChat_def page_updates clear_input_upd
  sendMessage_catch_upd outcome.case_eq_if sendMessage_try_frame

subsection \<open>Sending a message\<close>

lemma sendMessage_trim: "sendMessage st (trim t) img reply = sendMessage st t img reply"
  by (simp add: sendMessage_def trim_trim)

lemma sendMessage_requests:
  assumes "trim t \<noteq> [] \<or> truthy img"
  shows "requests (sendMessage st t img reply) =
     requests st @ [PostChat (sessionId st)
        (if trim t \<noteq> [] then trim t else ''(Sent an image)'')
        (if truthy img then img else or_null (currentImageBase64 st))]"
  using assms by (cases reply) (auto simp: sendMessage_unfold)

lemma sendMessage_frame:
  "sessionId (sendMessage st t img reply) = sessionId st"
  "mediaRecorder (sendMessage st t img reply) = mediaRecorder st"
  "audioChunks (sendMessage st t img reply) = audioChunks st"
  "stream (sendMessage st t img reply) = stream st"
  "holdSpeak (sendMessage st t img reply) = holdSpeak st"
  "recorders (sendMessage st t img reply) = recorders st"
  "tracks (sendMessage st t img reply) = tracks st"
  by (cases reply; simp add: sendMessage_unfold)+

lemma sendMessage_voiceStatus:
  "voiceStatus (sendMessage st t img reply) = None \<longleftrightarrow> voiceStatus st = None"
  by (cases reply; cases "voiceStatus st"; simp add: sendMessage_unfold)

lemma sendMessage_session_id:
  assumes "trim t \<noteq> [] \<or> truthy img"
  shows "\<exists>m i. requests (sendMessage st t img reply) = requests st @ [PostChat (sessionId st) m i]"
  using sendMessage_requests [OF assms] by blast

lemma sendMessage_noop_iff:
  "sendMessage st t img reply = st \<longleftrightarrow> trim t = [] \<and> \<not> truthy img"
proof
  assume a: "sendMessage st t img reply = st"
  show "trim t = [] \<and> \<not> truthy img"
  proof (rule ccontr)
    assume "\<not> (trim t = [] \<and> \<not> truthy img)"
    then have "trim t \<noteq> [] \<or> truthy img" by blast
    from sendMessage_requests [OF this, of st reply] a show False by simp
  qed
next
  assume "trim t = [] \<and> \<not> truthy img"
  then show "sendMessage st t img reply = st"
    by (simp add: sendMessage_def)
qed

text \<open>
  C10. A send whose text is white space only, that is any number of the code points
  \<open>trim\<close> strips, one after the other, and none for the empty text, and that carries no
  image, returns the state as it was: no request is issued, nothing is appended to the
  transcript, and the remembered image, the input field and the status are what they were.
  No other send leaves the state as it was (lemmas \<open>trim_eq_Nil\<close>,
  \<open>sendMessage_noop_iff\<close>).
\<close>

theorem sendMessage_blank_noop:
  assumes "set ws \<subseteq> set whitespace" and "\<not> truthy imageBase64"
  shows "sendMessage st (concat ws) imageBase64 reply = st"
proof -
  from assms(1) have "trim (concat ws) = []"
    by (rule trim_blank)
  with assms(2) show ?thesis
    by (simp add: sendMessage_def)
qed

theorem sendMessage_blank_noop_witness:
  "[CHR 0x20] \<in> set whitespace \<and> [CHR 0x09] \<in> set whitespace
   \<and> [CHR 0xC2, CHR 0xA0] \<in> set whitespace \<and> [CHR 0xE2, CHR 0x80, CHR 0xA8] \<in> set whitespace
   \<and> [CHR 0xEF, CHR 0xBB, CHR 0xBF] \<in> set whitespace
   \<and> \<not> truthy None \<and> \<not> truthy (Some [])
   \<and> sendMessage page
        [CHR 0x20, CHR 0x09, CHR 0xC2, CHR 0xA0, CHR 0xE2, CHR 0x80, CHR 0xA8,
         CHR 0xEF, CHR 0xBB, CHR 0xBF] None (Ok200 low_power_reply) = page
   \<and> sendMessage page [] (Some []) (Ok200 low_power_reply) = page
   \<and> requests page = [] \<and> conversation page = Some []"
proof -
  let ?ws = "[[CHR 0x20], [CHR 0x09], [CHR 0xC2, CHR 0xA0], [CHR 0xE2, CHR 0x80, CHR 0xA8],
     [CHR 0xEF, CHR 0xBB, CHR 0xBF]]"
  have m: "[CHR 0x20] \<in> set whitespace" "[CHR 0x09] \<in> set whitespace"
    "[CHR 0xC2, CHR 0xA0] \<in> set whitespace" "[CHR 0xE2, CHR 0x80, CHR 0xA8] \<in> set whitespace"
    "[CHR 0xEF, CHR 0xBB, CHR 0xBF] \<in> set whitespace"
    by (simp_all add: whitespace_def)
  then have a: "set ?ws \<subseteq> set whitespace"
    by simp
  have e: "set [] \<subseteq> set whitespace"
    by simp
  have b: "\<not> truthy None" "\<not> truthy (Some [])"
    by (simp_all add: truthy_def)
  have c: "requests page = []" "conversation page = Some []"
    by (simp_all add: page_def)
  from sendMessage_blank_noop [OF a b(1), of page "Ok200 low_power_reply"]
    sendMessage_blank_noop [OF e b(2), of page "Ok200 low_power_reply"]
    m b c
  show ?thesis
    by simp
qed

lemma panel_links_Inr: "list_all is_string srcs \<longleftrightarrow> (\<exists>ps. panel_links srcs = Inr ps)"
proof (induction srcs)
  case Nil
  show ?case by simp
next
  case (Cons s srcs)
  show ?case
  proof (cases s)
    case (SrcString x)
    with Cons show ?thesis by (cases "panel_links srcs") auto
  next
    case (SrcObject u v)
    then show ?thesis by simp
  qed
qed

lemma updateContext_completes: "is_Completes (updateContext st d) \<longleftrightarrow> \<not> panel_throws st d"
proof (cases "sourcesList st")
  case None
  then show ?thesis
    by (simp add: updateContext_def Let_def panel_throws_def split: option.splits)
next
  case (Some links)
  show ?thesis
  proof (cases "panel_links (sources_or_empty d)")
    case (Inl e)
    with panel_links_Inr [of "sources_or_empty d"] have n: "\<not> list_all is_string (sources_or_empty d)"
      by simp
    then have "sources_or_empty d \<noteq> []" by auto
    with Some Inl n show ?thesis
      by (auto simp: updateContext_def Let_def panel_throws_def sources_or_empty_def
          split: option.splits)
  next
    case (Inr ps)
    with panel_links_Inr [of "sources_or_empty d"] have n: "list_all is_string (sources_or_empty d)"
      by simp
    with Some Inr show ?thesis
      by (auto simp: updateContext_def Let_def panel_throws_def sources_or_empty_def
          split: option.splits)
  qed
qed

lemma sendMessage_try_completes:
  "is_Completes (sendMessage_try st d) \<longleftrightarrow> \<not> panel_throws st d"
proof -
  have "is_Completes (sendMessage_try st d) \<longleftrightarrow>
        is_Completes (updateContext (appendAriaMessage (setVoiceStatus (removeTyping st) [])
                (or_else (data_text d) []) (sources_or_empty d) (data_audio_base64 d)) d)"
    by (simp add: sendMessage_try_def split: outcome.splits)
  also have "\<dots> \<longleftrightarrow> \<not> panel_throws st d"
    by (simp add: updateContext_completes panel_throws_def page_updates)
  finally show ?thesis .
qed

lemma sendMessage_image_after:
  assumes "trim t \<noteq> [] \<or> truthy img"
  shows "currentImageBase64 (sendMessage st t img (Ok200 d)) =
     (if panel_throws st d then (if truthy img then img else currentImageBase64 st) else None)"
  using assms
  by (auto simp: sendMessage_unfold sendMessage_try_image sendMessage_try_completes
      panel_throws_def)

lemma sendMessage_image_after_failure:
  assumes "trim t \<noteq> [] \<or> truthy img" and "reply = Rejected \<or> reply = NotOk b"
  shows "currentImageBase64 (sendMessage st t img reply) =
     (if truthy img then img else currentImageBase64 st)"
  using assms by (auto simp: sendMessage_unfold)

text \<open>
  C2. A fresh image becomes the remembered image, and a send without a fresh image carries
  the remembered one (lemmas \<open>sendMessage_requests\<close>,
  \<open>sendMessage_image_after_failure\<close>). The remembered image is cleared after the
  response is rendered only when \<open>updateContext\<close> returns (lemma
  \<open>sendMessage_image_after\<close>). On a page with a sources panel, a response to a send
  with an image that cites a source as an object is rendered, then \<open>updateContext\<close>
  throws: the apology follows the response in the transcript, the image stays remembered,
  and the next send without a fresh image carries it.
\<close>

theorem remembered_image_kept_after_rendered_response:
  "conversation (sendMessage page ''(See attached image)'' (Some ''QUJD'')
        (Ok200 object_source_reply))
     = Some [UserMessage ''(See attached image)'' (Some ''data:image/png;base64,QUJD''),
             AriaMessage ''ok'' [Pill ''https://support.apple.com/'' ''Apple Support''] None,
             AriaMessage apology [] None]
   \<and> currentImageBase64 (sendMessage page ''(See attached image)'' (Some ''QUJD'')
        (Ok200 object_source_reply)) = Some ''QUJD''
   \<and> requests (sendMessage (sendMessage page ''(See attached image)'' (Some ''QUJD'')
        (Ok200 object_source_reply)) ''Is this normal?'' None Rejected)
     = [PostChat (sessionId page) ''(See attached image)'' (Some ''QUJD''),
        PostChat (sessionId page) ''Is this normal?'' (Some ''QUJD'')]"
proof -
  let ?st' = "sendMessage page ''(See attached image)'' (Some ''QUJD'') (Ok200 object_source_reply)"
  have t1: "trim ''(See attached image)'' = ''(See attached image)''"
    and t2: "trim ''Is this normal?'' = ''Is this normal?''"
    by (rule trim_literals)+
  have p: "panel_throws page object_source_reply"
    by (simp add: panel_throws_def page_def object_source_reply_def sources_or_empty_def)
  have img: "currentImageBase64 ?st' = Some ''QUJD''"
    using sendMessage_image_after [of "''(See attached image)''" "Some ''QUJD''" page
        object_source_reply] p t1
    by (simp add: truthy_def)
  have r1: "requests ?st' = [PostChat (sessionId page) ''(See attached image)'' (Some ''QUJD'')]"
    using sendMessage_requests [of "''(See attached image)''" "Some ''QUJD''" page
        "Ok200 object_source_reply"] t1
    by (simp add: truthy_def page_def)
  have r2: "requests (sendMessage ?st' ''Is this normal?'' None Rejected)
      = [PostChat (sessionId page) ''(See attached image)'' (Some ''QUJD''),
         PostChat (sessionId page) ''Is this normal?'' (Some ''QUJD'')]"
    using sendMessage_requests [of "''Is this normal?''" None ?st' Rejected] t2 r1 img
    by (simp add: truthy_def or_null_def sendMessage_frame)
  have c: "conversation ?st' =
      Some [UserMessage ''(See attached image)'' (Some ''data:image/png;base64,QUJD''),
            AriaMessage ''ok'' [Pill ''https://support.apple.com/'' ''Apple Support''] None,
            AriaMessage apology [] None]"
    using p t1
    by (simp add: sendMessage_unfold sendMessage_try_completes truthy_def or_null_def
        page_def object_source_reply_def or_else_def sources_or_empty_def source_pill_def
        attribute_value_def startsWith_def panel_throws_def)
  from c img r2 show ?thesis by simp
qed

subsection \<open>Rendering a response\<close>

lemma or_null_nonempty:
  "or_null (map_option (\<lambda>b. c # f b) v) = map_option (\<lambda>b. c # f b) v"
  by (cases v) (simp_all add: or_null_def truthy_def)

lemma sendMessage_conversation:
  assumes "trim t \<noteq> [] \<or> truthy img" and "conversation st = Some es"
    and "TypingIndicator \<notin> set es"
  shows "conversation (sendMessage st t img (Ok200 d)) =
     Some (es @ [UserMessage (if trim t \<noteq> [] then trim t else ''(Sent an image)'')
                   (map_option (\<lambda>b. ''data:image/png;base64,'' @ b) (or_null img)),
                 AriaMessage (or_else (data_text d) []) (map source_pill (sources_or_empty d))
                   (or_null (data_audio_base64 d))]
              @ (if panel_throws st d then [AriaMessage apology [] None] else []))"
  using assms
  by (auto simp: sendMessage_unfold sendMessage_try_completes panel_throws_def
      or_null_nonempty remove1_append)

lemma sendMessage_try_processSteps:
  "processStepsList (state_of (sendMessage_try st d)) =
     (case processStepsList st of
        None \<Rightarrow> None
      | Some ps \<Rightarrow> Some (case data_steps d of None \<Rightarrow> ps | Some ss \<Rightarrow> map process_step ss))"
  using updateContext_processSteps
    [of "appendAriaMessage (setVoiceStatus (removeTyping st) [])
          (or_else (data_text d) []) (sources_or_empty d) (data_audio_base64 d)" d]
  by (simp add: sendMessage_try_def outcome.case_eq_if page_updates)

lemma sendMessage_processSteps:
  assumes "trim t \<noteq> [] \<or> truthy img"
  shows "processStepsList (sendMessage st t img (Ok200 d)) =
     (case processStepsList st of
        None \<Rightarrow> None
      | Some ps \<Rightarrow> Some (case data_steps d of None \<Rightarrow> ps | Some ss \<Rightarrow> map process_step ss))"
  using assms by (auto simp: sendMessage_unfold sendMessage_try_processSteps)

lemma updateContext_sourcesList:
  "sourcesList (state_of (updateContext st d)) =
     (case sourcesList st of
        None \<Rightarrow> None
      | Some old \<Rightarrow>
          (case panel_links (sources_or_empty d) of
             Inl e \<Rightarrow> Some old
           | Inr links \<Rightarrow> Some (if sources_or_empty d = [] then old else links)))"
  by (simp add: updateContext_def Let_def sources_or_empty_def split: option.splits sum.splits)

lemma sendMessage_try_sourcesList:
  "sourcesList (state_of (sendMessage_try st d)) =
     (case sourcesList st of
        None \<Rightarrow> None
      | Some old \<Rightarrow>
          (case panel_links (sources_or_empty d) of
             Inl e \<Rightarrow> Some old
           | Inr links \<Rightarrow> Some (if sources_or_empty d = [] then old else links)))"
  using updateContext_sourcesList
    [of "appendAriaMessage (setVoiceStatus (removeTyping st) [])
          (or_else (data_text d) []) (sources_or_empty d) (data_audio_base64 d)" d]
  by (simp add: sendMessage_try_def outcome.case_eq_if page_updates)

lemma sendMessage_sourcesList:
  assumes "trim t \<noteq> [] \<or> truthy img"
  shows "sourcesList (sendMessage st t img (Ok200 d)) =
     (case sourcesList st of
        None \<Rightarrow> None
      | Some old \<Rightarrow>
          (case panel_links (sources_or_empty d) of
             Inl e \<Rightarrow> Some old
           | Inr links \<Rightarrow> Some (if sources_or_empty d = [] then old else links)))"
  using assms by (auto simp: sendMessage_unfold sendMessage_try_sourcesList)

lemma string_source_pill:
  "source_pill (SrcString x) =
     Pill (if prefix ''http'' x then takeWhile (\<lambda>c. c \<noteq> CHR 0x22) x else ''#'') x"
  by (auto simp: source_pill_def attribute_value_def startsWith_def)

lemma object_source_pill:
  "source_pill (SrcObject url ttl) =
     Pill (case url of
             None \<Rightarrow> ''#''
           | Some u \<Rightarrow> if prefix ''http'' u then takeWhile (\<lambda>c. c \<noteq> CHR 0x22) u else ''#'')
          (case ttl of
             None \<Rightarrow> (case url of None \<Rightarrow> [] | Some u \<Rightarrow> u)
           | Some l \<Rightarrow> if l \<noteq> [] then l else (case url of None \<Rightarrow> [] | Some u \<Rightarrow> u))"
  by (auto simp: source_pill_def attribute_value_def startsWith_def or_else_def
      split: option.splits)

lemma process_step_entry:
  "process_step s =
     (''process-step process-step-'' @
        (case step_phase s of None \<Rightarrow> ''observe'' | Some p \<Rightarrow> if p = [] then ''observe'' else p),
      (if step_phase s = Some ''think'' then ''Think: ''
       else if step_phase s = Some ''act'' then ''Act: '' else ''Observe: '')
      @ (case step_text s of None \<Rightarrow> [] | Some x \<Rightarrow> x))"
  by (auto simp: process_step_def phaseLabel_def or_else_def split: option.splits)

lemma panel_links_strings:
  "panel_links (map SrcString xs) =
     Inr (concat (map (\<lambda>x. ''<a href='' @ [CHR 0x22] @ (if prefix ''http'' x then x else ''#'')
            @ [CHR 0x22] @ '' target='' @ [CHR 0x22] @ ''_blank'' @ [CHR 0x22]
            @ '' rel='' @ [CHR 0x22] @ ''noopener'' @ [CHR 0x22] @ ''>'' @ escapeHtml x @ ''</a>'') xs))"
  by (induction xs) (simp_all add: dquote_def startsWith_def)

lemma panel_throws_iff:
  "panel_throws st d \<longleftrightarrow>
     sourcesList st \<noteq> None \<and> (\<exists>url ttl. SrcObject url ttl \<in> set (sources_or_empty d))"
proof -
  have "\<not> list_all is_string srcs \<longleftrightarrow> (\<exists>url ttl. SrcObject url ttl \<in> set srcs)" for srcs
  proof (induction srcs)
    case Nil
    show ?case by simp
  next
    case (Cons a srcs)
    then show ?case by (cases a) auto
  qed
  then show ?thesis
    by (simp add: panel_throws_def)
qed

text \<open>
  C9. A send that is answered with a response, on a page with a transcript that shows no
  typing indicator. The transcript gets the user's message and then one assistant message:
  the response's text, one pill per cited source in the order cited, and the audio if any.
  Nothing follows it, unless the page has a sources panel and a cited source is not a
  string: then the apology does. The process-steps list, where the page has one and the
  response carries steps, becomes one entry per step in order; the sources panel, where the
  page has one and the response cites strings only and at least one, becomes one anchor per
  source in order, and is left as it was otherwise.

  The pill of a string source has the source as its label; its link is the source (up to
  its first double quote) when the source starts with \<open>http\<close>, and the inert \<open>#\<close>
  otherwise. The pill of an object has its title, else its url, as label, and its url as
  link under the same condition. The text of a step's entry is its phase prefix,
  \<open>Think: \<close>, \<open>Act: \<close> or \<open>Observe: \<close> (the last for the tag \<open>observe\<close>, for
  any other tag and for none), followed by the step's text.
\<close>

theorem chat_response_rendered:
  assumes "trim t \<noteq> [] \<or> truthy img" and "conversation st = Some es"
    and "TypingIndicator \<notin> set es"
  shows "conversation (sendMessage st t img (Ok200 d)) =
       Some (es @ [UserMessage (if trim t \<noteq> [] then trim t else ''(Sent an image)'')
                     (map_option (\<lambda>b. ''data:image/png;base64,'' @ b) (or_null img)),
                   AriaMessage (or_else (data_text d) []) (map source_pill (sources_or_empty d))
                     (or_null (data_audio_base64 d))]
                @ (if panel_throws st d then [AriaMessage apology [] None] else []))
   \<and> processStepsList (sendMessage st t img (Ok200 d)) =
       (case processStepsList st of
          None \<Rightarrow> None
        | Some ps \<Rightarrow> Some (case data_steps d of None \<Rightarrow> ps | Some ss \<Rightarrow> map process_step ss))
   \<and> sourcesList (sendMessage st t img (Ok200 d)) =
       (case sourcesList st of
          None \<Rightarrow> None
        | Some old \<Rightarrow>
            (case panel_links (sources_or_empty d) of
               Inl e \<Rightarrow> Some old
             | Inr links \<Rightarrow> Some (if sources_or_empty d = [] then old else links)))
   \<and> (panel_throws st d \<longleftrightarrow>
        sourcesList st \<noteq> None \<and> (\<exists>url ttl. SrcObject url ttl \<in> set (sources_or_empty d)))
   \<and> (\<forall>x. source_pill (SrcString x) =
         Pill (if prefix ''http'' x then takeWhile (\<lambda>c. c \<noteq> CHR 0x22) x else ''#'') x)
   \<and> (\<forall>url ttl. source_pill (SrcObject url ttl) =
         Pill (case url of
                 None \<Rightarrow> ''#''
               | Some u \<Rightarrow> if prefix ''http'' u then takeWhile (\<lambda>c. c \<noteq> CHR 0x22) u else ''#'')
              (case ttl of
                 None \<Rightarrow> (case url of None \<Rightarrow> [] | Some u \<Rightarrow> u)
               | Some l \<Rightarrow> if l \<noteq> [] then l else (case url of None \<Rightarrow> [] | Some u \<Rightarrow> u)))
   \<and> (\<forall>s. process_step s =
         (''process-step process-step-'' @
            (case step_phase s of None \<Rightarrow> ''observe'' | Some p \<Rightarrow> if p = [] then ''observe'' else p),
          (if step_phase s = Some ''think'' then ''Think: ''
           else if step_phase s = Some ''act'' then ''Act: '' else ''Observe: '')
          @ (case step_text s of None \<Rightarrow> [] | Some x \<Rightarrow> x)))
   \<and> (\<forall>xs. panel_links (map SrcString xs) =
         Inr (concat (map (\<lambda>x. ''<a href='' @ [CHR 0x22] @ (if prefix ''http'' x then x else ''#'')
                @ [CHR 0x22] @ '' target='' @ [CHR 0x22] @ ''_blank'' @ [CHR 0x22]
                @ '' rel='' @ [CHR 0x22] @ ''noopener'' @ [CHR 0x22] @ ''>'' @ escapeHtml x
                @ ''</a>'') xs)))"
proof (intro conjI allI)
  show "conversation (sendMessage st t img (Ok200 d)) =
       Some (es @ [UserMessage (if trim t \<noteq> [] then trim t else ''(Sent an image)'')
                     (map_option (\<lambda>b. ''data:image/png;base64,'' @ b) (or_null img)),
                   AriaMessage (or_else (data_text d) []) (map source_pill (sources_or_empty d))
                     (or_null (data_audio_base64 d))]
                @ (if panel_throws st d then [AriaMessage apology [] None] else []))"
    using assms by (rule sendMessage_conversation)
  show "processStepsList (sendMessage st t img (Ok200 d)) =
       (case processStepsList st of
          None \<Rightarrow> None
        | Some ps \<Rightarrow> Some (case data_steps d of None \<Rightarrow> ps | Some ss \<Rightarrow> map process_step ss))"
    using assms(1) by (rule sendMessage_processSteps)
  show "sourcesList (sendMessage st t img (Ok200 d)) =
       (case sourcesList st of
          None \<Rightarrow> None
        | Some old \<Rightarrow>
            (case panel_links (sources_or_empty d) of
               Inl e \<Rightarrow> Some old
             | Inr links \<Rightarrow> Some (if sources_or_empty d = [] then old else links)))"
    using assms(1) by (rule sendMessage_sourcesList)
  show "panel_throws st d \<longleftrightarrow>
        sourcesList st \<noteq> None \<and> (\<exists>url ttl. SrcObject url ttl \<in> set (sources_or_empty d))"
    by (rule panel_throws_iff)
qed (rule string_source_pill object_source_pill process_step_entry panel_links_strings)+

theorem chat_response_rendered_witness:
  "trim ''My battery drains fast'' = ''My battery drains fast''
   \<and> trim ''Wi-Fi is slow'' = ''Wi-Fi is slow''
   \<and> conversation page = Some [] \<and> processStepsList page = Some [] \<and> sourcesList page = Some []
   \<and> conversation (sendMessage page ''My battery drains fast'' None (Ok200 low_power_reply))
       = Some [UserMessage ''My battery drains fast'' None,
               AriaMessage ''Try enabling Low Power Mode.'' [Pill ''#'' ''battery_drain_basics.md''] None]
   \<and> processStepsList (sendMessage page ''My battery drains fast'' None (Ok200 low_power_reply))
       = Some [(''process-step process-step-observe'', ''Observe: battery drops quickly'')]
   \<and> sourcesList (sendMessage page ''My battery drains fast'' None (Ok200 low_power_reply))
       = Some (''<a href='' @ dquote @ ''#'' @ dquote @ '' target='' @ dquote @ ''_blank'' @ dquote
               @ '' rel='' @ dquote @ ''noopener'' @ dquote @ ''>battery_drain_basics.md</a>'')
   \<and> conversation (sendMessage page ''Wi-Fi is slow'' None (Ok200 guide_reply))
       = Some [UserMessage ''Wi-Fi is slow'' None,
               AriaMessage ''Restart the router.''
                 [Pill ''https://support.apple.com/en-us/111786?a=1&b=2''
                       ''https://support.apple.com/en-us/111786?a=1&b=2'',
                  Pill ''#'' ''wifi_slow_speeds.md'']
                 (Some ''SUQz'')]
   \<and> processStepsList (sendMessage page ''Wi-Fi is slow'' None (Ok200 guide_reply))
       = Some [(''process-step process-step-think'', ''Think: router may be stale''),
               (''process-step process-step-act'', ''Act: search_knowledge_base'')]
   \<and> sourcesList (sendMessage page ''Wi-Fi is slow'' None (Ok200 guide_reply))
       = Some (''<a href='' @ dquote @ ''https://support.apple.com/en-us/111786?a=1&b=2'' @ dquote
               @ '' target='' @ dquote @ ''_blank'' @ dquote
               @ '' rel='' @ dquote @ ''noopener'' @ dquote
               @ ''>https://support.apple.com/en-us/111786?a=1&amp;b=2</a>''
               @ ''<a href='' @ dquote @ ''#'' @ dquote @ '' target='' @ dquote @ ''_blank'' @ dquote
               @ '' rel='' @ dquote @ ''noopener'' @ dquote @ ''>wifi_slow_speeds.md</a>'')"
proof -
  have t: "trim ''My battery drains fast'' = ''My battery drains fast''"
    "trim ''Wi-Fi is slow'' = ''Wi-Fi is slow''"
    by (simp_all add: trim_def strip_start.simps strip_end.simps whitespace_def suffix_to_prefix)
  then have c: "trim ''My battery drains fast'' \<noteq> [] \<or> truthy None"
    "trim ''Wi-Fi is slow'' \<noteq> [] \<or> truthy None"
    by simp_all
  have a: "conversation page = Some []" "processStepsList page = Some []"
    "sourcesList page = Some []"
    by (simp_all add: page_def)
  have n: "TypingIndicator \<notin> set []"
    by simp
  have p: "\<not> panel_throws page low_power_reply" "\<not> panel_throws page guide_reply"
    by (simp_all add: panel_throws_def low_power_reply_def guide_reply_def sources_or_empty_def)
  have e1: "or_else (data_text low_power_reply) [] = ''Try enabling Low Power Mode.''"
    "map source_pill (sources_or_empty low_power_reply) = [Pill ''#'' ''battery_drain_basics.md'']"
    "or_null (data_audio_base64 low_power_reply) = None"
    "data_steps low_power_reply = Some [\<lparr>step_phase = Some ''observe'', step_text = Some ''battery drops quickly''\<rparr>]"
    "sources_or_empty low_power_reply = [SrcString ''battery_drain_basics.md'']"
    by (simp_all add: low_power_reply_def or_else_def sources_or_empty_def source_pill_def
        attribute_value_def startsWith_def or_null_def truthy_def)
  have e2: "or_else (data_text guide_reply) [] = ''Restart the router.''"
    "map source_pill (sources_or_empty guide_reply) =
       [Pill ''https://support.apple.com/en-us/111786?a=1&b=2''
             ''https://support.apple.com/en-us/111786?a=1&b=2'',
        Pill ''#'' ''wifi_slow_speeds.md'']"
    "or_null (data_audio_base64 guide_reply) = Some ''SUQz''"
    "data_steps guide_reply =
       Some [\<lparr>step_phase = Some ''think'', step_text = Some ''router may be stale''\<rparr>,
             \<lparr>step_phase = Some ''act'', step_text = Some ''search_knowledge_base''\<rparr>]"
    "sources_or_empty guide_reply =
       [SrcString ''https://support.apple.com/en-us/111786?a=1&b=2'', SrcString ''wifi_slow_speeds.md'']"
    by (simp_all add: guide_reply_def or_else_def sources_or_empty_def source_pill_def
        attribute_value_def startsWith_def or_null_def truthy_def)
  have s: "process_step \<lparr>step_phase = Some ''observe'', step_text = Some ''battery drops quickly''\<rparr>
      = (''process-step process-step-observe'', ''Observe: battery drops quickly'')"
    "process_step \<lparr>step_phase = Some ''think'', step_text = Some ''router may be stale''\<rparr>
      = (''process-step process-step-think'', ''Think: router may be stale'')"
    "process_step \<lparr>step_phase = Some ''act'', step_text = Some ''search_knowledge_base''\<rparr>
      = (''process-step process-step-act'', ''Act: search_knowledge_base'')"
    by (simp_all add: process_step_def phaseLabel_def or_else_def)
  have l: "panel_links [SrcString ''battery_drain_basics.md''] =
      Inr (''<a href='' @ dquote @ ''#'' @ dquote @ '' target='' @ dquote @ ''_blank'' @ dquote
               @ '' rel='' @ dquote @ ''noopener'' @ dquote @ ''>battery_drain_basics.md</a>'')"
    "panel_links [SrcString ''https://support.apple.com/en-us/111786?a=1&b=2'',
                  SrcString ''wifi_slow_speeds.md''] =
      Inr (''<a href='' @ dquote @ ''https://support.apple.com/en-us/111786?a=1&b=2'' @ dquote
               @ '' target='' @ dquote @ ''_blank'' @ dquote
               @ '' rel='' @ dquote @ ''noopener'' @ dquote
               @ ''>https://support.apple.com/en-us/111786?a=1&amp;b=2</a>''
               @ ''<a href='' @ dquote @ ''#'' @ dquote @ '' target='' @ dquote @ ''_blank'' @ dquote
               @ '' rel='' @ dquote @ ''noopener'' @ dquote @ ''>wifi_slow_speeds.md</a>'')"
    by (simp_all add: startsWith_def dquote_def)
  note r1 = chat_response_rendered [OF c(1) a(1) n, of low_power_reply]
  note r2 = chat_response_rendered [OF c(2) a(1) n, of guide_reply]
  have "conversation (sendMessage page ''My battery drains fast'' None (Ok200 low_power_reply))
       = Some [UserMessage ''My battery drains fast'' None,
               AriaMessage ''Try enabling Low Power Mode.'' [Pill ''#'' ''battery_drain_basics.md''] None]"
    using r1 [THEN conjunct1, unfolded t e1(1-3)] p(1) by (simp add: or_null_def truthy_def)
  moreover have "processStepsList (sendMessage page ''My battery drains fast'' None (Ok200 low_power_reply))
       = Some [(''process-step process-step-observe'', ''Observe: battery drops quickly'')]"
    using r1 [THEN conjunct2, THEN conjunct1] by (simp add: a e1(4) s)
  moreover have "sourcesList (sendMessage page ''My battery drains fast'' None (Ok200 low_power_reply))
       = Some (''<a href='' @ dquote @ ''#'' @ dquote @ '' target='' @ dquote @ ''_blank'' @ dquote
               @ '' rel='' @ dquote @ ''noopener'' @ dquote @ ''>battery_drain_basics.md</a>'')"
    using r1 [THEN conjunct2, THEN conjunct2, THEN conjunct1] by (simp only: a e1(5) l) simp
  moreover have "conversation (sendMessage page ''Wi-Fi is slow'' None (Ok200 guide_reply))
       = Some [UserMessage ''Wi-Fi is slow'' None,
               AriaMessage ''Restart the router.''
                 [Pill ''https://support.apple.com/en-us/111786?a=1&b=2''
                       ''https://support.apple.com/en-us/111786?a=1&b=2'',
                  Pill ''#'' ''wifi_slow_speeds.md'']
                 (Some ''SUQz'')]"
    using r2 [THEN conjunct1, unfolded t e2(1-3)] p(2) by (simp add: or_null_def truthy_def)
  moreover have "processStepsList (sendMessage page ''Wi-Fi is slow'' None (Ok200 guide_reply))
       = Some [(''process-step process-step-think'', ''Think: router may be stale''),
               (''process-step process-step-act'', ''Act: search_knowledge_base'')]"
    using r2 [THEN conjunct2, THEN conjunct1] by (simp add: a e2(4) s)
  moreover have "sourcesList (sendMessage page ''Wi-Fi is slow'' None (Ok200 guide_reply))
       = Some (''<a href='' @ dquote @ ''https://support.apple.com/en-us/111786?a=1&b=2'' @ dquote
               @ '' target='' @ dquote @ ''_blank'' @ dquote
               @ '' rel='' @ dquote @ ''noopener'' @ dquote
               @ ''>https://support.apple.com/en-us/111786?a=1&amp;b=2</a>''
               @ ''<a href='' @ dquote @ ''#'' @ dquote @ '' target='' @ dquote @ ''_blank'' @ dquote
               @ '' rel='' @ dquote @ ''noopener'' @ dquote @ ''>wifi_slow_speeds.md</a>'')"
    using r2 [THEN conjunct2, THEN conjunct2, THEN conjunct1] by (simp only: a e2(5) l) simp
  ultimately show ?thesis
    using t a by (intro conjI)
qed

subsection \<open>Loading the session\<close>

lemma conversation_foldl_replay:
  "conversation st = Some es \<Longrightarrow>
   conversation (foldl replay st ms) = Some (es @ map render_turn ms)"
proof (induction ms arbitrary: st es)
  case Nil
  then show ?case by simp
next
  case (Cons m ms)
  have "conversation (replay st m) = Some (es @ [render_turn m])"
    using Cons.prems
    by (simp add: replay_def render_turn_def appendUserMessage_def appendAriaMessage_def
        or_null_def truthy_def)
  from Cons.IH [OF this] show ?case by simp
qed

lemma conversation_init_catch:
  "conversation st = Some es \<Longrightarrow> conversation (init_catch st e) = Some (es @ [notice_entry])"
  by (simp add: init_catch_def appendAriaMessage_def console_error_def notice_entry_def
      or_null_def truthy_def)

lemma conversation_showOpeningMessage:
  "conversation st = Some es \<Longrightarrow> conversation (showOpeningMessage st) = Some (es @ [opening_entry])"
  by (simp add: showOpeningMessage_def appendAriaMessage_def opening_entry_def or_null_def truthy_def)

lemma conversation_fetch: "conversation (fetch st r) = conversation st"
  by (simp add: fetch_def)

lemma init_after_session:
  assumes "conversation st = Some es" and "sres \<noteq> Rejected"
  shows "conversation (init st sres dres) =
     Some (es @ (if returned_history sres \<noteq> [] then map render_turn (returned_history sres)
                 else [opening_entry])
              @ (if dres = Rejected then [notice_entry] else []))"
proof -
  define st1 where "st1 = fetch st (GetSession (sessionId st))"
  define body where "body = (if returned_history sres \<noteq> [] then map render_turn (returned_history sres)
                 else [opening_entry])"
  define st2 where "st2 = (if returned_history sres \<noteq> [] then foldl replay st1 (returned_history sres)
     else showOpeningMessage st1)"
  have c1: "conversation st1 = Some es"
    using assms(1) by (simp add: st1_def conversation_fetch)
  have c2: "conversation st2 = Some (es @ body)"
    using c1 by (simp add: st2_def body_def conversation_foldl_replay conversation_showOpeningMessage)
  have i: "init st sres dres =
      (case apiDocuments st2 dres of
                     (st3, Inl e) \<Rightarrow> init_catch st3 e
                   | (st3, Inr ds) \<Rightarrow>
                       (case docsList st3 of
                          None \<Rightarrow> st3
                        | Some items \<Rightarrow>
                            (case ds of
                               None \<Rightarrow> st3
                             | Some entries \<Rightarrow>
                                 if entries = [] then st3
                                 else st3\<lparr>docsList := Some (items @ map list_item entries)\<rparr>)))"
    using assms
    by (cases sres rule: returned_history.cases)
       (simp_all add: init_def apiSession_def st2_def st1_def)
  have c3: "conversation (fetch st2 GetDocuments) = Some (es @ body)"
    using c2 by (simp add: conversation_fetch)
  show ?thesis
    unfolding i body_def [symmetric]
    using c3
    by (cases dres)
       (simp_all add: apiDocuments_def conversation_init_catch split: option.splits)
qed

lemma init_session_rejected:
  "conversation st = Some es \<Longrightarrow> conversation (init st Rejected dres) = Some (es @ [notice_entry])"
  by (simp add: init_def apiSession_def conversation_init_catch conversation_fetch)

lemma init_without_transcript: "conversation st = None \<Longrightarrow> init st sres dres = st"
  by (simp add: init_def)

text \<open>
  C1, as amended. On a page with a transcript, when the session request is answered: a
  non-empty history is appended to the transcript as it is, in order, user turns as user
  messages and the other turns as assistant messages, with no opening message; an empty or
  absent history (also a response that is not ok) gives exactly the one fixed opening
  message. After either, the notice that the server could not be reached follows when the
  request for the document list is rejected, and nothing follows otherwise.
\<close>

theorem init_transcript:
  assumes "conversation st = Some es" and "sres \<noteq> Rejected"
  shows "conversation (init st sres dres) =
     Some (es @ (if returned_history sres \<noteq> [] then map render_turn (returned_history sres)
                 else [opening_entry])
              @ (if dres = Rejected then [notice_entry] else []))"
  using assms by (rule init_after_session)

theorem init_transcript_witness:
  "conversation page = Some []
   \<and> conversation (init page
         (Ok200 (Some [\<lparr>role = ''user'', content = ''My battery drains fast''\<rparr>,
                       \<lparr>role = ''assistant'', content = ''Try enabling Low Power Mode.''\<rparr>]))
         (Ok200 (Some [\<lparr>filename = ''manual.pdf'', chunks_created = 12\<rparr>])))
       = Some [UserMessage ''My battery drains fast'' None,
               AriaMessage ''Try enabling Low Power Mode.'' [] None]
   \<and> conversation (init page (Ok200 (Some [])) (NotOk ''Not Found'')) = Some [opening_entry]
   \<and> conversation (init page (Ok200 None) (Ok200 None)) = Some [opening_entry]"
proof -
  have a: "conversation page = Some []"
    by (simp add: page_def)
  have n: "Ok200 h \<noteq> Rejected" for h :: "turn list option"
    by simp
  note w = init_transcript [OF a n]
  show ?thesis
    using a w [of "Some [\<lparr>role = ''user'', content = ''My battery drains fast''\<rparr>,
                       \<lparr>role = ''assistant'', content = ''Try enabling Low Power Mode.''\<rparr>]"
               "Ok200 (Some [\<lparr>filename = ''manual.pdf'', chunks_created = 12\<rparr>])"]
      w [of "Some []" "NotOk ''Not Found''"] w [of None "Ok200 None"]
    by (simp add: render_turn_def)
qed

text \<open>
  The history is not all the transcript shows when the request for the document list is
  rejected after the history has been rendered: the notice follows the history.
\<close>

theorem init_history_counterexample:
  "conversation (init page
       (Ok200 (Some [\<lparr>role = ''user'', content = ''My battery drains fast''\<rparr>])) Rejected)
     = Some [UserMessage ''My battery drains fast'' None, notice_entry]
   \<and> conversation (init page
       (Ok200 (Some [\<lparr>role = ''user'', content = ''My battery drains fast''\<rparr>])) Rejected)
     \<noteq> Some (map render_turn [\<lparr>role = ''user'', content = ''My battery drains fast''\<rparr>])"
proof -
  have a: "conversation page = Some []"
    by (simp add: page_def)
  have "conversation (init page
       (Ok200 (Some [\<lparr>role = ''user'', content = ''My battery drains fast''\<rparr>])) Rejected)
     = Some [UserMessage ''My battery drains fast'' None, notice_entry]"
    using init_after_session [OF a, of "Ok200 (Some [\<lparr>role = ''user'', content = ''My battery drains fast''\<rparr>])" Rejected]
    by (simp add: render_turn_def)
  then show ?thesis
    by (simp add: render_turn_def)
qed

subsection \<open>Voice recording\<close>

lemma startRecording_granted:
  "startRecording st True =
     st\<lparr>stream := Some (length (tracks st)), tracks := tracks st @ [True],
        mediaRecorder := Some (length (recorders st)),
        recorders := recorders st @ [Recording], audioChunks := [],
        holdSpeak := map_option (\<lambda>_. True) (holdSpeak st),
        voiceStatus := map_option (\<lambda>_. ''Listening...'') (voiceStatus st)\<rparr>"
  by (cases "holdSpeak st") (simp_all add: startRecording_def Let_def page_updates)

lemma onstop_tracks:
  "stream st = Some i \<Longrightarrow> tracks (onstop st res reply) = (tracks st)[i := False]"
  by (cases res)
     (simp_all add: onstop_def Let_def apiTranscribe_def page_updates sendMessage_frame
        split: option.splits)

lemma map_option_const_eq:
  "(map_option (\<lambda>_. c) a = map_option (\<lambda>_. c) b) = ((a = None) = (b = None))"
  by (cases a; cases b; simp)

lemma onstop_voiceStatus:
  assumes "stream st = Some i"
  shows "voiceStatus (onstop st res reply) = map_option (\<lambda>_. []) (voiceStatus st)"
  using assms
  by (cases res)
     (simp_all add: onstop_def Let_def apiTranscribe_def page_updates map_option_const_eq
        sendMessage_voiceStatus split: option.splits)

lemma onstop_transcribed:
  assumes "stream st = Some i" and "t \<noteq> []"
  shows "onstop st (Ok200 (Some t)) reply =
     setVoiceStatus
       (sendMessage
          (fetch (setVoiceStatus (st\<lparr>tracks := (tracks st)[i := False]\<rparr>) ''Transcribing...'')
             (PostTranscribe (audioChunks st))) t None reply) []"
  using assms
  by (simp add: onstop_def Let_def apiTranscribe_def or_null_def truthy_def setVoiceStatus_upd)

text \<open>
  C5. A non-empty transcript is sent as \<open>sendMessage\<close> sends typed text (lemmas
  \<open>onstop_transcribed\<close>, \<open>sendMessage_trim\<close>). When the transcription endpoint
  fails, the handler sets the status line to the failure text and, on leaving the
  \<open>catch\<close> block, at once to the empty string: the status line ends empty whatever the
  endpoint answers (lemma \<open>onstop_voiceStatus\<close>), the error is only logged, and the
  transcript shows nothing.
\<close>

theorem transcription_failure_leaves_no_status:
  "voiceStatus (run page [(mousedown, failing_transcription), (mouseup, failing_transcription)])
     = Some []
   \<and> console (run page [(mousedown, failing_transcription), (mouseup, failing_transcription)])
     = [Error ''Internal Server Error'']
   \<and> conversation (run page [(mousedown, failing_transcription), (mouseup, failing_transcription)])
     = Some []"
  by (simp add: run_def dispatch_def page_def failing_transcription_def startRecording_granted
      stopRecording_def ondataavailable_def onstop_def Let_def apiTranscribe_def page_updates)

lemma release_frees_microphone:
  assumes "holdSpeak st \<noteq> None" and "\<not> microphone_held st"
    and "holdSpeak_listener press = Some StartRecording"
    and "holdSpeak_listener release = Some StopRecording"
    and "permission w"
  shows "\<not> microphone_held (run st [(press, w), (release, w')])"
proof -
  obtain h where h: "holdSpeak st = Some h"
    using assms(1) by auto
  let ?s = "startRecording st True"
  have s: "dispatch st (press, w) = ?s"
    using h assms(3,5) by (simp add: dispatch_def)
  have f: "stream ?s = Some (length (tracks st))" "tracks ?s = tracks st @ [True]"
    "mediaRecorder ?s = Some (length (recorders st))"
    "recorders ?s = recorders st @ [Recording]" "holdSpeak ?s = Some True"
    using h by (simp_all add: startRecording_granted)
  have "tracks (stopRecording ?s w') = tracks st @ [False]"
    using f
    by (simp add: stopRecording_def Let_def onstop_tracks ondataavailable_def)
  moreover have "dispatch ?s (release, w') = stopRecording ?s w'"
    using f assms(4) by (simp add: dispatch_def)
  ultimately show ?thesis
    using assms(2) s by (simp add: run_def microphone_held_def)
qed

text \<open>
  C6. Releasing the control (\<open>mouseup\<close>, \<open>touchend\<close>) or leaving it with the
  pointer (\<open>mouseleave\<close>), once the microphone has been granted, stops every track
  (lemma \<open>release_frees_microphone\<close>).
  No listener is bound for \<open>touchcancel\<close>: after a touch that started a recording is
  cancelled, the recorder still records and the track is still live.
\<close>

theorem touchcancel_keeps_microphone:
  "microphone_held (run page [(touchstart, failing_transcription), (touchcancel, failing_transcription)])
   \<and> recorders (run page [(touchstart, failing_transcription), (touchcancel, failing_transcription)])
       = [Recording]
   \<and> requests (run page [(touchstart, failing_transcription), (touchcancel, failing_transcription)])
       = []"
  by (simp add: run_def dispatch_def page_def failing_transcription_def startRecording_granted
      microphone_held_def)

subsection \<open>Document upload\<close>

lemma requests_uploadDoc: "requests (uploadDoc st f res) = requests st @ [PostUpload f]"
  by (cases res)
     (simp_all add: uploadDoc_def apiUploadDocument_def fetch_def console_error_def
        split: option.splits)

lemma requests_uploads:
  "requests (uploads st files server) = requests st @ map PostUpload files"
proof -
  have "requests (foldl (\<lambda>s f. uploadDoc s f (server f)) st files)
      = requests st @ map PostUpload files"
    by (induction files arbitrary: st) (simp_all add: requests_uploadDoc)
  then show ?thesis
    by (simp add: uploads_def)
qed

lemma requests_on_drop:
  "docsUpload st \<Longrightarrow>
   requests (on_drop st files server) = requests st @ map PostUpload (filter document_like files)"
  by (simp add: on_drop_def requests_uploads)

lemma requests_on_change:
  "fileInput st \<noteq> None \<Longrightarrow>
   requests (on_change st files server) = requests st @ map PostUpload files"
  by (auto simp: on_change_def requests_uploads)

text \<open>
  C7. Files are uploaded one after the other in the order given, and a failed upload does
  not stop the next (lemma \<open>requests_uploads\<close>). Dropped files are filtered by
  extension first (lemma \<open>requests_on_drop\<close>); files chosen in the file picker are not
  (lemma \<open>requests_on_change\<close>): a file named \<open>setup.exe\<close> chosen in the picker is
  uploaded and listed, while the same file dropped is not.
\<close>

theorem picker_uploads_without_extension_check:
  "\<not> document_like ''setup.exe''
   \<and> requests (on_change page [''setup.exe'', ''manual.pdf''] accepting_server)
       = [PostUpload ''setup.exe'', PostUpload ''manual.pdf'']
   \<and> docsList (on_change page [''setup.exe'', ''manual.pdf''] accepting_server)
       = Some [DocItem ''setup.exe'' 1 True, DocItem ''manual.pdf'' 1 True]
   \<and> requests (on_drop page [''setup.exe'', ''manual.pdf''] accepting_server)
       = [PostUpload ''manual.pdf'']"
proof -
  have a: "\<not> document_like ''setup.exe''" and b: "document_like ''manual.pdf''"
    by (simp_all add: document_like_def lower_ascii_def suffix_to_prefix)
  have c: "requests (on_change page [''setup.exe'', ''manual.pdf''] accepting_server)
       = [PostUpload ''setup.exe'', PostUpload ''manual.pdf'']"
    by (simp add: requests_on_change page_def)
  have d: "requests (on_drop page [''setup.exe'', ''manual.pdf''] accepting_server)
       = [PostUpload ''manual.pdf'']"
    using a b by (simp add: requests_on_drop page_def)
  have e: "docsList (on_change page [''setup.exe'', ''manual.pdf''] accepting_server)
       = Some [DocItem ''setup.exe'' 1 True, DocItem ''manual.pdf'' 1 True]"
    by (simp add: on_change_def uploads_def uploadDoc_def apiUploadDocument_def fetch_def
        accepting_server_def page_def)
  from a c d e show ?thesis by simp
qed

subsection \<open>Session identifier\<close>

lemma fresh_id_nonempty: "fresh_id b \<noteq> []"
  by (simp add: fresh_id_def)

lemma getOrCreateSessionId_read_throws:
  "read_throws b \<Longrightarrow> getOrCreateSessionId b = (fresh_id b, b)"
  by (simp add: getOrCreateSessionId_def getItem_def)

lemma getOrCreateSessionId_write_throws:
  "\<not> read_throws b \<Longrightarrow> \<not> truthy (stored b) \<Longrightarrow> has_randomUUID b \<Longrightarrow> write_throws b \<Longrightarrow>
   getOrCreateSessionId b = (fresh_id b, b)"
  by (simp add: getOrCreateSessionId_def getItem_def setItem_def or_null_def)

lemma getOrCreateSessionId_stored:
  "\<not> read_throws b \<Longrightarrow> stored b = Some s \<Longrightarrow> s \<noteq> [] \<Longrightarrow> getOrCreateSessionId b = (s, b)"
  by (simp add: getOrCreateSessionId_def getItem_def or_null_def truthy_def)

lemma getOrCreateSessionId_write_throws_only:
  assumes "write_throws b" and "\<not> read_throws b"
  shows "getOrCreateSessionId b =
     (if truthy (stored b) then (or_else (stored b) [], b) else (fresh_id b, b))"
  using assms
  by (auto simp: getOrCreateSessionId_def getItem_def setItem_def or_null_def truthy_def
      or_else_def split: option.splits)

lemma sessionId_at_module_level_throws:
  "read_throws b \<or> write_throws b \<Longrightarrow> \<exists>e. sessionId_at_module_level b = Inl e"
  by (auto simp: sessionId_at_module_level_def getItem_def setItem_def split: option.splits)

text \<open>
  C8. \<open>getOrCreateSessionId\<close> returns an identifier whatever local storage does, a
  fresh one that is not stored when storage throws (lemmas
  \<open>getOrCreateSessionId_read_throws\<close>, \<open>getOrCreateSessionId_write_throws_only\<close>), and
  every chat request carries the session identifier (lemma \<open>sendMessage_session_id\<close>).
  The script that sets the identifier at module level has no such guard: when storage
  throws, the exception ends that script and no identifier is made.
\<close>

theorem module_level_session_id_throws:
  "sessionId_at_module_level storage_blocked = Inl (DOMException ''SecurityError'')
   \<and> getOrCreateSessionId storage_blocked = (''aria-1700000000000-4fzyo82mv'', storage_blocked)"
  by (simp add: sessionId_at_module_level_def getOrCreateSessionId_def getItem_def fresh_id_def
      storage_blocked_def)

end
